theory Spec2Isabelle
  imports Complex_Main
begin

section \<open>JavaScript values used by the workflow\<close>

text \<open>
  Strings of the program are modelled as HOL strings: a \<open>char\<close> stands for one code
  unit in the range 0..255. Numbers that the program only interpolates into text
  (latitude and longitude) are carried as their decimal rendering. Integers obtained
  from \<open>parseInt\<close> are carried exactly as \<open>int\<close>; a JavaScript number agrees with
  that integer up to magnitude \<open>2 ^ 53\<close>, and prints as its plain decimal digits there,
  so the statements about parsed years carry that bound.
\<close>

definition nl :: string where
  "nl = [CHR 0x0A]"

definition dq :: string where
  "dq = [CHR 0x22]"

fun startsWith :: "string \<Rightarrow> string \<Rightarrow> bool" where
  "startsWith s [] = True"
| "startsWith [] (p # ps) = False"
| "startsWith (c # cs) (p # ps) = (c = p \<and> startsWith cs ps)"

text \<open>\<open>String.prototype.includes\<close>: does \<open>t\<close> occur in \<open>s\<close> as a contiguous run.\<close>

fun includes_str :: "string \<Rightarrow> string \<Rightarrow> bool" where
  "includes_str [] t = (t = [])"
| "includes_str (c # cs) t = (startsWith (c # cs) t \<or> includes_str cs t)"

definition isWhiteSpace :: "char \<Rightarrow> bool" where
  "isWhiteSpace c = (of_char c \<in> {0x09, 0x0A, 0x0B, 0x0C, 0x0D, 0x20, 0xA0 :: nat})"

text \<open>The value of a character as a digit of the given radix, if it is one.\<close>

definition digitValue :: "nat \<Rightarrow> char \<Rightarrow> nat option" where
  "digitValue R c =
     (let n = (of_char c :: nat);
          v = (if 48 \<le> n \<and> n \<le> 57 then Some (n - 48)
               else if 97 \<le> n \<and> n \<le> 122 then Some (n - 87)
               else if 65 \<le> n \<and> n \<le> 90 then Some (n - 55)
               else None)
      in case v of None \<Rightarrow> None | Some d \<Rightarrow> (if d < R then Some d else None))"

definition isRadixDigit :: "nat \<Rightarrow> char \<Rightarrow> bool" where
  "isRadixDigit R c = (digitValue R c \<noteq> None)"

definition radixValue :: "nat \<Rightarrow> string \<Rightarrow> nat" where
  "radixValue R Z =
     foldl (\<lambda>a c. case digitValue R c of None \<Rightarrow> a | Some d \<Rightarrow> a * R + d) 0 Z"

text \<open>
  \<open>parseInt(string)\<close> with no radix argument: leading white space is dropped, one sign
  is read, a \<open>0x\<close>/\<open>0X\<close> prefix selects radix 16, and the longest run of digits is
  converted. \<open>None\<close> is \<open>NaN\<close>. Negative zero is the integer 0.
\<close>

definition parseInt :: "string \<Rightarrow> int option" where
  "parseInt s =
     (let S = dropWhile isWhiteSpace s;
          neg = startsWith S ''-'';
          S1 = (if startsWith S ''+'' \<or> startsWith S ''-'' then drop 1 S else S);
          hex = (startsWith S1 ''0x'' \<or> startsWith S1 ''0X'');
          R = (if hex then 16 else 10);
          S2 = (if hex then drop 2 S1 else S1);
          Z = takeWhile (isRadixDigit R) S2
      in if Z = [] then None
         else Some ((if neg then - 1 else 1) * int (radixValue R Z)))"

definition digitChar :: "nat \<Rightarrow> char" where
  "digitChar d = char_of (48 + d)"

fun natToString :: "nat \<Rightarrow> string" where
  "natToString n =
     (if n < 10 then [digitChar n] else natToString (n div 10) @ [digitChar (n mod 10)])"

text \<open>The text a template literal inserts for an integer-valued number.\<close>

definition numberToString :: "int \<Rightarrow> string" where
  "numberToString i = (if i < 0 then ''-'' else []) @ natToString (nat \<bar>i\<bar>)"

section \<open>Prompt composition (generateTravelPhoto, services/geminiService.ts)\<close>

datatype TimeEra = PAST | PRESENT | FUTURE

fun eraString :: "TimeEra \<Rightarrow> string" where
  "eraString PAST = ''Past (Ancient/Historical)''"
| "eraString PRESENT = ''Present Day''"
| "eraString FUTURE = ''Future (Sci-Fi/Advanced)''"

text \<open>The test \<open>!isNaN(yearNum) && yearNum < 0\<close> on \<open>parseInt(year)\<close>.\<close>

definition isBC :: "string \<Rightarrow> bool" where
  "isBC year = (case parseInt year of None \<Rightarrow> False | Some yearNum \<Rightarrow> yearNum < 0)"

definition absYear :: "string \<Rightarrow> string" where
  "absYear year = (case parseInt year of None \<Rightarrow> ''NaN'' | Some yearNum \<Rightarrow> numberToString \<bar>yearNum\<bar>)"

definition bcInstruction :: "string \<Rightarrow> string \<Rightarrow> string \<Rightarrow> string" where
  "bcInstruction lat lng ay =
     nl @ ''            CRITICAL HISTORICAL ACCURACY (B.C. ERA):''
   @ nl @ ''            The year is '' @ ay @ '' B.C. (Before Christ/Common Era).''
   @ nl @ ''            - MODERN CITIES DO NOT EXIST. Do NOT show modern buildings, roads, or ruins.''
   @ nl @ ''            - Show the NATURAL LANDSCAPE (pristine forests, rivers, deserts, terrain) exactly as it would have looked at these coordinates (''
        @ lat @ '', '' @ lng @ '') in '' @ ay @ '' B.C.''
   @ nl @ ''            - If early human settlements (Neolithic, Bronze Age, Indigenous tribes) were historically present in this specific region at that time, depict them accurately (huts, primitive tools, campfires).''
   @ nl @ ''            - Clothing MUST be primitive and accurate to the region and era (e.g., animal skins, simple woven tunics).''
   @ nl @ ''          ''"

definition adInstruction :: "string \<Rightarrow> string" where
  "adInstruction year =
     nl @ ''            HISTORICAL ACCURACY: The year is '' @ year @ ''.''
   @ nl @ ''            - Ensure architecture, street signs, technology, and background details match this year.''
   @ nl @ ''            - If Future, use grounded sci-fi aesthetics suitable for '' @ year @ ''.''
   @ nl @ ''          ''"

text \<open>
  The two variables set by the year logic. \<open>year\<close> is optional; \<open>if (year)\<close> is
  false for an absent and for an empty string.
\<close>

definition timeDescription :: "TimeEra \<Rightarrow> string option \<Rightarrow> string" where
  "timeDescription era year =
     (case year of
        None \<Rightarrow> eraString era
      | Some y \<Rightarrow>
          if y = [] then eraString era
          else if isBC y then eraString era @ '' (Specifically '' @ absYear y @ '' B.C.)''
          else eraString era @ '' (Specifically the year '' @ y @ '')'')"

definition historicInstruction :: "string \<Rightarrow> string \<Rightarrow> string option \<Rightarrow> string" where
  "historicInstruction lat lng year =
     (case year of
        None \<Rightarrow> []
      | Some y \<Rightarrow>
          if y = [] then []
          else if isBC y then bcInstruction lat lng (absYear y)
          else adInstruction y)"

text \<open>\<open>customPrompt || "No specific scene instructions provided."\<close>\<close>

definition customOrDefault :: "string option \<Rightarrow> string" where
  "customOrDefault customPrompt =
     (case customPrompt of
        None \<Rightarrow> ''No specific scene instructions provided.''
      | Some p \<Rightarrow> if p = [] then ''No specific scene instructions provided.'' else p)"

definition textPrompt ::
  "string \<Rightarrow> string \<Rightarrow> string \<Rightarrow> TimeEra \<Rightarrow> string \<Rightarrow> string option \<Rightarrow> string option
     \<Rightarrow> string \<Rightarrow> string \<Rightarrow> string" where
  "textPrompt lat lng locationName era weatherCondition year customPrompt style variation =
     nl @ ''      Create a highly realistic and historically accurate travel photo.''
   @ nl
   @ nl @ ''      CONTEXT:''
   @ nl @ ''      - Location: '' @ locationName @ '' (Lat: '' @ lat @ '', Lng: '' @ lng @ '').''
   @ nl @ ''      - Era/Year: '' @ timeDescription era year @ ''.''
   @ nl @ ''      - Weather: '' @ weatherCondition @ ''.''
   @ nl @ ''      - Shot Variation: '' @ variation @ '' (Ensure this image has a distinct composition).''
   @ nl
   @ nl @ ''      USER INSTRUCTIONS:''
   @ nl @ ''      '' @ dq @ customOrDefault customPrompt @ dq
   @ nl
   @ nl @ ''      REQUIREMENTS:''
   @ nl @ ''      1. '' @ historicInstruction lat lng year
   @ nl @ ''      ''
   @ nl @ ''      2. SUBJECT: Insert the person from the reference image.''
   @ nl @ ''         - Maintain facial identity strictly.''
   @ nl @ ''         - CHANGE CLOTHING: The subject MUST wear clothing accurate to ''
        @ timeDescription era year @ '' and '' @ weatherCondition @ ''.''
   @ nl @ ''         - Pose: Natural travel pose.''
   @ nl
   @ nl @ ''      3. AESTHETICS:''
   @ nl @ ''         - Visual Style: '' @ style @ ''. ''
   @ nl @ ''         - Photorealistic, 8k resolution, cinematic lighting.''
   @ nl @ ''         - No text, borders, or frames.''
   @ nl @ ''    ''"


section \<open>Errors and the image service\<close>

text \<open>
  A thrown value as the program reads it: the optional \<open>message\<close> and \<open>status\<close>
  properties, and the text \<open>JSON.stringify\<close> gives for it.
\<close>

datatype js_error = JsError (message: "string option") (errStatus: "int option") (asJson: string)

text \<open>\<open>new Error(m)\<close>: a message, no status, and no enumerable property.\<close>

definition Error :: "string \<Rightarrow> js_error" where
  "Error m = JsError (Some m) None ''{}''"

datatype 'r outcome = Resolves 'r | Rejects js_error

text \<open>
  What one invocation does to the outside world, in order: a request to the image model
  with its text part and inline image data, or a timed wait in milliseconds.
\<close>

datatype event = Request string "string option" | Wait int

text \<open>A content part of the response; \<open>inlineData\<close> holds the image data when present.\<close>

datatype part = Part (inlineData: "string option")

type_synonym response = "part list"

text \<open>\<open>error.message?.includes('429') || error.status === 429\<close>\<close>

definition isRateLimit :: "js_error \<Rightarrow> bool" where
  "isRateLimit error =
     ((case message error of None \<Rightarrow> False | Some m \<Rightarrow> includes_str m ''429'')
      \<or> errStatus error = Some 429)"

definition isSecondsChar :: "char \<Rightarrow> bool" where
  "isSecondsChar c = ((48 \<le> (of_char c :: nat) \<and> (of_char c :: nat) \<le> 57) \<or> c = CHR ''.'')"

text \<open>
  The regular expression \<open>/retry in ([0-9.]+)s/\<close> anchored at the start of \<open>s\<close>,
  giving capture group 1. The group is greedy, and the letter that must follow it is
  not in its class, so the only candidate is the longest run of class characters.
\<close>

definition matchRetryAt :: "string \<Rightarrow> string option" where
  "matchRetryAt s =
     (if startsWith s ''retry in '' then
        (let r = drop 9 s;
             c = takeWhile isSecondsChar r;
             rest = dropWhile isSecondsChar r
         in if c \<noteq> [] \<and> startsWith rest ''s'' then Some c else None)
      else None)"

text \<open>\<open>message.match(/retry in ([0-9.]+)s/)\<close>: the leftmost match, as \<open>match[1]\<close>.\<close>

fun retryMatch :: "string \<Rightarrow> string option" where
  "retryMatch [] = None"
| "retryMatch (c # cs) =
     (case matchRetryAt (c # cs) of Some m \<Rightarrow> Some m | None \<Rightarrow> retryMatch cs)"

definition isDecimalDigit :: "char \<Rightarrow> bool" where
  "isDecimalDigit c = (48 \<le> (of_char c :: nat) \<and> (of_char c :: nat) \<le> 57)"

text \<open>
  \<open>parseFloat\<close> on a string of digits and dots, which is all the capture group can
  hold: digits, then optionally a dot and more digits; \<open>None\<close> is \<open>NaN\<close>. The value
  is the exact decimal, where the program has the nearest double. On a string of at
  most 15 characters the two have the same ceiling: such a decimal with a non-zero
  fraction lies further from both neighbouring integers than a double's rounding
  error. Longer strings are outside what this definition stands for, and the
  statements about the delay carry the bound.
\<close>

definition parseFloat :: "string \<Rightarrow> rat option" where
  "parseFloat s =
     (let I = takeWhile isDecimalDigit s;
          r = dropWhile isDecimalDigit s;
          F = (if startsWith r ''.'' then takeWhile isDecimalDigit (drop 1 r) else [])
      in if I = [] \<and> F = [] then None
         else Some (of_nat (radixValue 10 I) + of_nat (radixValue 10 F) / 10 ^ length F))"

text \<open>\<open>Math.ceil(parseFloat(c))\<close>, \<open>None\<close> for \<open>NaN\<close>.\<close>

definition ceilSeconds :: "string \<Rightarrow> int option" where
  "ceilSeconds c = (case parseFloat c of None \<Rightarrow> None | Some x \<Rightarrow> Some \<lceil>x\<rceil>)"

text \<open>\<open>error.message?.match(/retry in ([0-9.]+)s/)\<close>, as capture group 1.\<close>

definition errorRetryMatch :: "js_error \<Rightarrow> string option" where
  "errorRetryMatch error = (case message error of None \<Rightarrow> None | Some m \<Rightarrow> retryMatch m)"

text \<open>
  The variable \<open>delay\<close> of \<open>makeRequest\<close> after both assignments; \<open>None\<close> is \<open>NaN\<close>.
\<close>

definition retryDelay :: "nat \<Rightarrow> js_error \<Rightarrow> int option" where
  "retryDelay retryCount error =
     (case errorRetryMatch error of
        None \<Rightarrow> Some (3000 * 2 ^ retryCount)
      | Some c \<Rightarrow> (case ceilSeconds c of None \<Rightarrow> None | Some n \<Rightarrow> Some (n * 1000 + 2000)))"

text \<open>
  \<open>makeRequest(retryCount)\<close>, with the two variables of the enclosing function it
  reads (the composed text and the image data) as arguments. \<open>svc k\<close> is what the
  service does with the request made at retry count \<open>k\<close>. The result is the value
  returned or thrown, with the requests and waits performed.
\<close>

function makeRequest ::
  "(nat \<Rightarrow> response outcome) \<Rightarrow> string \<Rightarrow> string option \<Rightarrow> nat
     \<Rightarrow> (js_error + response) \<times> event list" where
  "makeRequest svc prompt userImageBase64 retryCount =
     (case svc retryCount of
        Resolves r \<Rightarrow> (Inr r, [Request prompt userImageBase64])
      | Rejects error \<Rightarrow>
          if isRateLimit error then
            if retryCount < 2 then
              (case retryDelay retryCount error of
                 None \<Rightarrow> (Inl error, [Request prompt userImageBase64])
               | Some delay \<Rightarrow>
                   if delay < 70000 then
                     (case makeRequest svc prompt userImageBase64 (retryCount + 1) of
                        (res, evs) \<Rightarrow>
                          (res, Request prompt userImageBase64 # Wait delay # evs))
                   else (Inl error, [Request prompt userImageBase64]))
            else (Inl error, [Request prompt userImageBase64])
          else (Inl error, [Request prompt userImageBase64]))"
  by pat_completeness auto
termination
  by (relation "measure (\<lambda>(svc, t, i, retryCount). 2 - retryCount)") auto

declare makeRequest.simps [simp del]

text \<open>The loop over the parts of the first candidate: the first inline image, if any.\<close>

fun firstInlineData :: "response \<Rightarrow> string option" where
  "firstInlineData [] = None"
| "firstInlineData (p # ps) =
     (case inlineData p of Some d \<Rightarrow> Some d | None \<Rightarrow> firstInlineData ps)"

definition orDefault :: "string option \<Rightarrow> string \<Rightarrow> string" where
  "orDefault v d = (case v of None \<Rightarrow> d | Some x \<Rightarrow> x)"

definition generateTravelPhoto ::
  "(nat \<Rightarrow> response outcome) \<Rightarrow> string \<Rightarrow> string \<Rightarrow> string \<Rightarrow> string \<Rightarrow> TimeEra
     \<Rightarrow> string option \<Rightarrow> string \<Rightarrow> string option \<Rightarrow> string option
     \<Rightarrow> string option \<Rightarrow> string option \<Rightarrow> (js_error + string) \<times> event list" where
  "generateTravelPhoto svc apiKey lat lng locationName era userImageBase64 weatherCondition
       year customPrompt style variation =
     (if apiKey = [] then (Inl (Error ''API Key is required''), [])
      else
        (case makeRequest svc
                (textPrompt lat lng locationName era weatherCondition year customPrompt
                   (orDefault style ''Realistic'') (orDefault variation ''Standard Shot''))
                userImageBase64 0 of
           (Inl error, evs) \<Rightarrow> (Inl error, evs)
         | (Inr response, evs) \<Rightarrow>
             (case firstInlineData response of
                Some d \<Rightarrow> (Inr (''data:image/png;base64,'' @ d), evs)
              | None \<Rightarrow> (Inl (Error ''No image generated''), evs))))"

section \<open>Location resolution (analyzeLocation, services/geminiService.ts)\<close>

text \<open>
  The records of \<open>types.ts\<close>. Coordinates are numbers that the program passes on and
  prints but never computes with; they are carried in printed form. The fields of a
  point of interest are prefixed, since a record field is a constant of its own.
\<close>

record Weather =
  temp :: string
  condition :: string

record PointOfInterest =
  poi_name :: string
  poi_lat :: string
  poi_lng :: string

record LocationContext =
  name :: string
  description :: string
  weather :: Weather
  clothingRecommendation :: string
  isVague :: "bool option"
  nearbyPOIs :: "PointOfInterest list option"

text \<open>The record returned by the \<open>catch\<close> block.\<close>

definition fallbackContext :: LocationContext where
  "fallbackContext =
     \<lparr> name = ''Unknown Location'',
       description = ''Could not retrieve exact location details.'',
       weather = \<lparr> temp = ''--'', condition = ''Unknown'' \<rparr>,
       clothingRecommendation = ''Casual wear'',
       isVague = Some False,
       nearbyPOIs = None \<rparr>"

text \<open>
  \<open>[\s\S]*\}\<close> read greedily: the longest prefix of the rest that ends in a closing
  brace. The recursive call is tried first (a longer match), the brace at this position
  only when no later one exists.
\<close>

fun upToLastClose :: "string \<Rightarrow> string option" where
  "upToLastClose [] = None"
| "upToLastClose (c # cs) =
     (case upToLastClose cs of
        Some m \<Rightarrow> Some (c # m)
      | None \<Rightarrow> if c = CHR ''}'' then Some [c] else None)"

text \<open>The regular expression \<open>/\{[\s\S]*\}/\<close> anchored at the start of the string.\<close>

fun matchBraceAt :: "string \<Rightarrow> string option" where
  "matchBraceAt [] = None"
| "matchBraceAt (c # cs) =
     (if c = CHR ''{'' then
        (case upToLastClose cs of None \<Rightarrow> None | Some m \<Rightarrow> Some (c # m))
      else None)"

text \<open>\<open>text.match(/\{[\s\S]*\}/)\<close>: the leftmost match, as \<open>jsonMatch[0]\<close>.\<close>

fun jsonMatch :: "string \<Rightarrow> string option" where
  "jsonMatch [] = None"
| "jsonMatch (c # cs) =
     (case matchBraceAt (c # cs) of Some m \<Rightarrow> Some m | None \<Rightarrow> jsonMatch cs)"

text \<open>
  The body of the \<open>try\<close> block. \<open>svc lat lng\<close> is what the text service does with the
  request for these coordinates: it rejects, or resolves with a response whose
  \<open>text\<close> may be absent. \<open>parse\<close> stands for \<open>JSON.parse\<close> followed by the unchecked
  cast to \<open>LocationContext\<close>, \<open>Inl\<close> being the error it throws.
\<close>

definition analyzeBody ::
  "(string \<Rightarrow> js_error + LocationContext) \<Rightarrow> (string \<Rightarrow> string \<Rightarrow> string option outcome)
     \<Rightarrow> string \<Rightarrow> string \<Rightarrow> js_error + LocationContext" where
  "analyzeBody parse svc lat lng =
     (case svc lat lng of
        Rejects error \<Rightarrow> Inl error
      | Resolves text \<Rightarrow>
          (case text of
             None \<Rightarrow> Inl (Error ''No response from AI'')
           | Some t \<Rightarrow>
               if t = [] then Inl (Error ''No response from AI'')
               else
                 (case jsonMatch t of
                    Some m \<Rightarrow> parse m
                  | None \<Rightarrow> Inl (Error ''Failed to parse location JSON''))))"

definition analyzeLocation ::
  "(string \<Rightarrow> js_error + LocationContext) \<Rightarrow> (string \<Rightarrow> string \<Rightarrow> string option outcome)
     \<Rightarrow> string \<Rightarrow> string \<Rightarrow> string \<Rightarrow> js_error + LocationContext" where
  "analyzeLocation parse svc lat lng apiKey =
     (if apiKey = [] then Inl (Error ''API Key is required'')
      else
        (case analyzeBody parse svc lat lng of
           Inr context \<Rightarrow> Inr context
         | Inl error \<Rightarrow> Inr fallbackContext))"

text \<open>
  The span the specification describes: from the first opening brace of the text
  through the last closing brace after it.
\<close>

definition firstOpenToLastClose :: "string \<Rightarrow> string option" where
  "firstOpenToLastClose t =
     (let r = dropWhile (\<lambda>c. c \<noteq> CHR ''{'') t;
          body = rev (dropWhile (\<lambda>c. c \<noteq> CHR ''}'') (rev (drop 1 r)))
      in if r = [] \<or> body = [] then None else Some (CHR ''{'' # body))"

section \<open>Application state and handlers (App.tsx)\<close>

datatype AppStatus =
  idle | analyzing_location | ready_to_generate | generating_image | complete | error

datatype VisualStyle = Realistic | Cinematic | Documentary

fun styleString :: "VisualStyle \<Rightarrow> string" where
  "styleString Realistic = ''Realistic''"
| "styleString Cinematic = ''Cinematic''"
| "styleString Documentary = ''Documentary''"

record Coordinates =
  lat :: string
  lng :: string

text \<open>
  The state hooks of \<open>App\<close>, with the three pieces of the browser that the handlers
  touch: the key kept in local storage, whether \<open>window.aistudio\<close> exists, and whether
  its key selector has been opened.
\<close>

record AppState =
  apiKey :: string
  apiKeyReady :: bool
  selectedLocation :: "Coordinates option"
  locationInfo :: "LocationContext option"
  status :: AppStatus
  generatedImages :: "string list"
  errorMessage :: "string option"
  storedKey :: "string option"
  aistudio :: bool
  keySelectorOpened :: bool

definition clearApiKey :: "AppState \<Rightarrow> AppState" where
  "clearApiKey st =
     st\<lparr> apiKey := [], apiKeyReady := False, storedKey := None,
         keySelectorOpened := (if aistudio st then True else keySelectorOpened st) \<rparr>"

text \<open>\<open>error.message || JSON.stringify(error)\<close>\<close>

definition errorText :: "js_error \<Rightarrow> string" where
  "errorText err =
     (case message err of
        None \<Rightarrow> asJson err
      | Some m \<Rightarrow> if m = [] then asJson err else m)"

definition isQuotaMessage :: "string \<Rightarrow> bool" where
  "isQuotaMessage msg =
     (includes_str msg ''429'' \<or> includes_str msg ''Quota''
      \<or> includes_str msg ''RESOURCE_EXHAUSTED'')"

definition isInvalidKeyMessage :: "string \<Rightarrow> bool" where
  "isInvalidKeyMessage msg =
     (includes_str msg ''400'' \<or> includes_str msg ''expired''
      \<or> includes_str msg ''API_KEY_INVALID'' \<or> includes_str msg ''not found'')"

definition quotaDisplayMsg :: "string \<Rightarrow> string" where
  "quotaDisplayMsg msg =
     ''Quota/Rate limit exceeded.'' @
     (case retryMatch msg of
        Some retryTime \<Rightarrow>
          '' Please wait ''
          @ (case ceilSeconds retryTime of None \<Rightarrow> ''NaN'' | Some n \<Rightarrow> numberToString n)
          @ '' seconds before trying again.''
      | None \<Rightarrow> '' Please try again later or check your billing.'')"

definition handleError :: "js_error \<Rightarrow> string \<Rightarrow> AppState \<Rightarrow> AppState" where
  "handleError err defaultMsg st =
     (let st1 = st\<lparr> status := error \<rparr>;
          msg = errorText err
      in if isQuotaMessage msg then
           st1\<lparr> errorMessage := Some (quotaDisplayMsg msg) \<rparr>
         else if isInvalidKeyMessage msg then
           clearApiKey (st1\<lparr> errorMessage := Some ''Invalid API Key. Please update your key.'' \<rparr>)
         else
           st1\<lparr> errorMessage :=
                  Some (defaultMsg @ '': '' @
                        (case message err of
                           None \<Rightarrow> ''Unknown error''
                         | Some m \<Rightarrow> if m = [] then ''Unknown error'' else m)) \<rparr>)"

text \<open>\<open>s.split(',')[1]\<close>: the text between the first and the second comma, if any.\<close>

definition secondField :: "string \<Rightarrow> string option" where
  "secondField s =
     (let r = dropWhile (\<lambda>c. c \<noteq> CHR '','') s
      in if r = [] then None else Some (takeWhile (\<lambda>c. c \<noteq> CHR '','') (drop 1 r)))"

text \<open>
  \<open>blobToBase64\<close>, given what the file reader does with the file: an error event, or
  the data URL it read.
\<close>

definition blobToBase64 :: "js_error + string \<Rightarrow> js_error + string option" where
  "blobToBase64 reader =
     (case reader of Inl ev \<Rightarrow> Inl ev | Inr base64String \<Rightarrow> Inr (secondField base64String))"

definition variations :: "string list" where
  "variations =
     [''Wide Angle Shot (Establishing Context)'', ''Medium Shot (Character Interaction)'']"

text \<open>
  The \<open>for\<close> loop of \<open>handleGenerate\<close>. \<open>svcs v\<close> is the behaviour of the image service
  during the call made for variation \<open>v\<close>. The loop ends with the thrown error, if
  any, the state, and for each call made its variation label with its requests and
  waits.
\<close>

fun generateLoop ::
  "(string \<Rightarrow> nat \<Rightarrow> response outcome) \<Rightarrow> string \<Rightarrow> Coordinates \<Rightarrow> LocationContext \<Rightarrow> TimeEra
     \<Rightarrow> string option \<Rightarrow> string option \<Rightarrow> string option \<Rightarrow> VisualStyle
     \<Rightarrow> string list \<Rightarrow> AppState
     \<Rightarrow> js_error option \<times> AppState \<times> (string \<times> event list) list" where
  "generateLoop svcs key loc info era base64Image year customPrompt style [] st =
     (None, st, [])"
| "generateLoop svcs key loc info era base64Image year customPrompt style (variation # rest) st =
     (case generateTravelPhoto (svcs variation) key (lat loc) (lng loc) (name info) era
             base64Image (condition (weather info)) year customPrompt
             (Some (styleString style)) (Some variation) of
        (Inl err, evs) \<Rightarrow> (Some err, st, [(variation, evs)])
      | (Inr imageUrl, evs) \<Rightarrow>
          (case generateLoop svcs key loc info era base64Image year customPrompt style rest
                  (st\<lparr> generatedImages := generatedImages st @ [imageUrl] \<rparr>) of
             (r, st', calls) \<Rightarrow> (r, st', (variation, evs) # calls)))"

definition handleGenerate ::
  "(string \<Rightarrow> nat \<Rightarrow> response outcome) \<Rightarrow> js_error + string \<Rightarrow> TimeEra \<Rightarrow> string option
     \<Rightarrow> string option \<Rightarrow> VisualStyle option \<Rightarrow> AppState
     \<Rightarrow> AppState \<times> (string \<times> event list) list" where
  "handleGenerate svcs file era year customPrompt style st =
     (case selectedLocation st of
        None \<Rightarrow> (st, [])
      | Some loc \<Rightarrow>
          (case locationInfo st of
             None \<Rightarrow> (st, [])
           | Some info \<Rightarrow>
               (let st1 = st\<lparr> status := generating_image, errorMessage := None,
                               generatedImages := [] \<rparr>
                in case blobToBase64 file of
                     Inl err \<Rightarrow> (handleError err ''Image generation failed'' st1, [])
                   | Inr base64Image \<Rightarrow>
                       (case generateLoop svcs (apiKey st) loc info era base64Image year
                               customPrompt (case style of None \<Rightarrow> Realistic | Some s \<Rightarrow> s)
                               variations st1 of
                          (None, st2, calls) \<Rightarrow> (st2\<lparr> status := complete \<rparr>, calls)
                        | (Some err, st2, calls) \<Rightarrow>
                            (handleError err ''Image generation failed'' st2, calls)))))"

section \<open>The vague-location decision (Sidebar.tsx)\<close>

text \<open>
  \<open>locationInfo?.isVague && !overrideVague && generatedImages.length === 0\<close>, as the
  truth value the conditions of the render read from it.
\<close>

definition isVagueState :: "LocationContext option \<Rightarrow> bool \<Rightarrow> string list \<Rightarrow> bool" where
  "isVagueState locInfo overrideVague images =
     ((case locInfo of None \<Rightarrow> False | Some info \<Rightarrow> isVague info = Some True)
      \<and> \<not> overrideVague \<and> length images = 0)"

text \<open>
  Four blocks of the sidebar, each under its condition; with no location selected the
  sidebar renders the start panel and none of them.
\<close>

definition showsPoiList ::
  "Coordinates option \<Rightarrow> LocationContext option \<Rightarrow> bool \<Rightarrow> string list \<Rightarrow> bool" where
  "showsPoiList location locInfo overrideVague images =
     (location \<noteq> None \<and> isVagueState locInfo overrideVague images \<and> locInfo \<noteq> None)"

definition showsLocationDetails ::
  "Coordinates option \<Rightarrow> LocationContext option \<Rightarrow> bool \<Rightarrow> string list \<Rightarrow> bool" where
  "showsLocationDetails location locInfo overrideVague images =
     (location \<noteq> None \<and> locInfo \<noteq> None \<and> \<not> isVagueState locInfo overrideVague images)"

definition showsGenerationControls ::
  "Coordinates option \<Rightarrow> LocationContext option \<Rightarrow> bool \<Rightarrow> string list \<Rightarrow> bool" where
  "showsGenerationControls location locInfo overrideVague images =
     (location \<noteq> None \<and> locInfo \<noteq> None \<and> \<not> isVagueState locInfo overrideVague images
      \<and> length images = 0)"

text \<open>
  The panel of generated images, under
  \<open>status === 'generating_image' || generatedImages.length > 0\<close>.
\<close>

definition showsImagesPanel :: "Coordinates option \<Rightarrow> AppStatus \<Rightarrow> string list \<Rightarrow> bool" where
  "showsImagesPanel location sidebarStatus images =
     (location \<noteq> None \<and> (sidebarStatus = generating_image \<or> length images > 0))"

section \<open>Observations on a trace\<close>

fun isRequest :: "event \<Rightarrow> bool" where
  "isRequest (Request t i) = True"
| "isRequest (Wait d) = False"

text \<open>The number of calls to the service, and of waits between them.\<close>

definition attempts :: "event list \<Rightarrow> nat" where
  "attempts evs = length (filter isRequest evs)"

definition retries :: "event list \<Rightarrow> nat" where
  "retries evs = length (filter (\<lambda>ev. \<not> isRequest ev) evs)"

text \<open>The text parts of the requests of a trace, in order.\<close>

definition requestTexts :: "event list \<Rightarrow> string list" where
  "requestTexts evs =
     List.map_filter (\<lambda>ev. case ev of Request t i \<Rightarrow> Some t | Wait d \<Rightarrow> None) evs"

section \<open>Example inputs\<close>

definition flakyService :: "nat \<Rightarrow> response outcome" where
  "flakyService k =
     (if k = 0 then Rejects (JsError None (Some 429) ''{}'')
      else Rejects (Error ''500 Internal error''))"

definition error5 :: js_error where
  "error5 = Error ''429 Quota exceeded. Please retry in 5s.''"

definition error80 :: js_error where
  "error80 = Error ''429 Quota exceeded. Please retry in 80s.''"

definition error429 :: js_error where
  "error429 = JsError None (Some 429) ''{}''"

definition errorDot :: js_error where
  "errorDot = Error ''429 Quota exceeded. Please retry in .s''"

definition onceLimited :: "js_error \<Rightarrow> nat \<Rightarrow> response outcome" where
  "onceLimited e k = (if k = 0 then Rejects e else Resolves [Part (Some ''AAAA'')])"

definition sampleContext :: LocationContext where
  "sampleContext =
     \<lparr> name = ''Eiffel Tower'',
       description = ''Wrought-iron lattice tower on the Champ de Mars.'',
       weather = \<lparr> temp = ''18 C'', condition = ''Cloudy'' \<rparr>,
       clothingRecommendation = ''Light jacket'',
       isVague = Some False,
       nearbyPOIs = None \<rparr>"

definition sampleParse :: "string \<Rightarrow> js_error + LocationContext" where
  "sampleParse m = (if m = ''{a} and {b}'' then Inr sampleContext else Inl (Error ''SyntaxError''))"

definition answers :: "string option \<Rightarrow> string \<Rightarrow> string \<Rightarrow> string option outcome" where
  "answers text la lo = Resolves text"

definition unreachable :: "string \<Rightarrow> string \<Rightarrow> string option outcome" where
  "unreachable la lo = Rejects (Error ''Failed to fetch'')"

definition sampleState :: AppState where
  "sampleState =
     \<lparr> apiKey = ''key-1'', apiKeyReady = True,
       selectedLocation = Some \<lparr> lat = ''48.8584'', lng = ''2.2945'' \<rparr>,
       locationInfo = Some sampleContext,
       status = ready_to_generate, generatedImages = [], errorMessage = None,
       storedKey = Some ''key-1'', aistudio = False, keySelectorOpened = False \<rparr>"

definition alwaysImage :: "string \<Rightarrow> nat \<Rightarrow> response outcome" where
  "alwaysImage v k = Resolves [Part None, Part (Some v)]"

definition keyRejectedOnSecond :: "string \<Rightarrow> nat \<Rightarrow> response outcome" where
  "keyRejectedOnSecond v k =
     (if v = ''Wide Angle Shot (Establishing Context)'' then Resolves [Part (Some ''AAAA'')]
      else Rejects (Error ''API_KEY_INVALID''))"

definition vagueContext :: LocationContext where
  "vagueContext =
     \<lparr> name = ''North Atlantic Ocean'',
       description = ''Open water.'',
       weather = \<lparr> temp = ''12 C'', condition = ''Windy'' \<rparr>,
       clothingRecommendation = ''Waterproof jacket'',
       isVague = Some True,
       nearbyPOIs = Some [\<lparr> poi_name = ''Azores'', poi_lat = ''37.7412'', poi_lng = ''-25.6756'' \<rparr>] \<rparr>"

definition noImage :: "string \<Rightarrow> nat \<Rightarrow> response outcome" where
  "noImage v k = Resolves [Part None]"

definition alwaysLimited :: "js_error \<Rightarrow> nat \<Rightarrow> response outcome" where
  "alwaysLimited e k = Rejects e"

section \<open>Facts about substring search\<close>

lemma startsWith_append: "startsWith (t @ q) t"
  by (induction t) auto

lemma includes_str_here: "includes_str (t @ q) t"
proof (cases "t @ q")
  case Nil
  then show ?thesis by simp
next
  case (Cons a list)
  then show ?thesis
    by (metis startsWith_append includes_str.simps(2))
qed

lemma includes_str_append: "includes_str (p @ t @ q) t"
proof (induction p)
  case Nil
  show ?case by (simp add: includes_str_here)
next
  case (Cons c p)
  then show ?case by simp
qed

lemma includes_strI: "s = p @ t @ q \<Longrightarrow> includes_str s t"
  by (simp add: includes_str_append)

lemma startsWith_split: "startsWith s t \<Longrightarrow> \<exists>q. s = t @ q"
  by (induction s t rule: startsWith.induct) auto

lemma includes_str_split: "includes_str s t \<Longrightarrow> \<exists>p q. s = p @ t @ q"
proof (induction s)
  case Nil
  then show ?case by simp
next
  case (Cons c cs)
  show ?case
  proof (cases "startsWith (c # cs) t")
    case True
    then obtain q where "c # cs = t @ q" using startsWith_split by blast
    then have "c # cs = [] @ t @ q" by simp
    then show ?thesis by blast
  next
    case False
    with Cons.prems have "includes_str cs t" by simp
    then obtain p q where "cs = p @ t @ q" using Cons.IH by blast
    then have "c # cs = (c # p) @ t @ q" by simp
    then show ?thesis by blast
  qed
qed

text \<open>\<open>includes_str\<close> is exactly "occurs as a contiguous run".\<close>

lemma includes_str_iff: "includes_str s t \<longleftrightarrow> (\<exists>p q. s = p @ t @ q)"
  using includes_str_split includes_strI by blast

lemma inc_skip: "includes_str s t \<Longrightarrow> includes_str (a @ s) t"
  by (metis append.assoc includes_str_iff)

lemma inc_in: "includes_str u t \<Longrightarrow> includes_str (u @ s) t"
  by (metis append.assoc includes_str_iff)

lemma includes_str_trans: "includes_str s u \<Longrightarrow> includes_str u t \<Longrightarrow> includes_str s t"
  by (metis append.assoc includes_str_iff)

section \<open>The year descriptor and its clauses\<close>

lemma parseInt_nonempty: "parseInt y = Some i \<Longrightarrow> y \<noteq> []"
  by (auto simp: parseInt_def Let_def)

lemma timeDescription_bc:
  assumes "parseInt y = Some (- int n)" "0 < n"
  shows "timeDescription era (Some y)
           = eraString era @ '' (Specifically '' @ natToString n @ '' B.C.)''"
  using assms parseInt_nonempty[OF assms(1)]
  by (simp add: timeDescription_def isBC_def absYear_def numberToString_def)

lemma historicInstruction_bc:
  assumes "parseInt y = Some (- int n)" "0 < n"
  shows "historicInstruction la lo (Some y) = bcInstruction la lo (natToString n)"
  using assms parseInt_nonempty[OF assms(1)]
  by (simp add: historicInstruction_def isBC_def absYear_def numberToString_def)

lemma timeDescription_ad:
  assumes "parseInt y = Some (int n)"
  shows "timeDescription era (Some y)
           = eraString era @ '' (Specifically the year '' @ y @ '')''"
  using assms parseInt_nonempty[OF assms]
  by (simp add: timeDescription_def isBC_def)

lemma historicInstruction_ad:
  assumes "parseInt y = Some (int n)"
  shows "historicInstruction la lo (Some y) = adInstruction y"
  using assms parseInt_nonempty[OF assms]
  by (simp add: historicInstruction_def isBC_def)

lemma textPrompt_timeDescription:
  "includes_str (textPrompt la lo loc era w year cp style var) (timeDescription era year)"
  unfolding textPrompt_def
  by (rule includes_str_here | rule inc_skip)+

lemma textPrompt_historicInstruction:
  "includes_str (textPrompt la lo loc era w year cp style var)
     (historicInstruction la lo year)"
  unfolding textPrompt_def
  by (rule includes_str_here | rule inc_skip)+

lemma bc_modern:
  "includes_str (bcInstruction la lo ay)
     ''MODERN CITIES DO NOT EXIST. Do NOT show modern buildings, roads, or ruins.''"
  unfolding bcInstruction_def
  by ((rule inc_in, (simp; fail)) | rule inc_skip)+

lemma bc_landscape:
  "includes_str (bcInstruction la lo ay) ''Show the NATURAL LANDSCAPE''"
  unfolding bcInstruction_def
  by ((rule inc_in, (simp; fail)) | rule inc_skip)+

lemma bc_clothing:
  "includes_str (bcInstruction la lo ay)
     ''Clothing MUST be primitive and accurate to the region and era''"
  unfolding bcInstruction_def
  by ((rule inc_in, (simp; fail)) | rule inc_skip)+

lemma ad_architecture:
  "includes_str (adInstruction y)
     ''Ensure architecture, street signs, technology, and background details match this year.''"
  unfolding adInstruction_def
  by ((rule inc_in, (simp; fail)) | rule inc_skip)+

lemma ad_year:
  "includes_str (adInstruction y) (''HISTORICAL ACCURACY: The year is '' @ y @ ''.'')"
proof -
  have "adInstruction y =
      (nl @ ''            '')
      @ (''HISTORICAL ACCURACY: The year is '' @ y @ ''.'')
      @ (nl @ ''            - Ensure architecture, street signs, technology, and background details match this year.''
       @ nl @ ''            - If Future, use grounded sci-fi aesthetics suitable for '' @ y @ ''.''
       @ nl @ ''          '')"
    unfolding adInstruction_def by simp
  then show ?thesis by (rule includes_strI)
qed

lemma descriptor_bc:
  "includes_str (eraString era @ '' (Specifically '' @ d @ '' B.C.)'') (d @ '' B.C.'')"
proof -
  have "eraString era @ '' (Specifically '' @ d @ '' B.C.)''
          = (eraString era @ '' (Specifically '') @ (d @ '' B.C.'') @ '')''"
    by simp
  then show ?thesis by (rule includes_strI)
qed

lemma descriptor_ad:
  "includes_str (eraString era @ '' (Specifically the year '' @ y @ '')'') (''the year '' @ y)"
proof -
  have "eraString era @ '' (Specifically the year '' @ y @ '')''
          = (eraString era @ '' (Specifically '') @ (''the year '' @ y) @ '')''"
    by simp
  then show ?thesis by (rule includes_strI)
qed

text \<open>
  Claim C1. A year string that \<open>parseInt\<close> reads as a negative integer \<open>- n\<close> puts
  the descriptor "\<open>n\<close> B.C." into the composed prompt, together with the B.C. clauses
  (modern cities do not exist, natural landscape, primitive clothing for the region and
  era). A year string read as a non-negative integer puts "the year" followed by the
  year string into the prompt, with the historical-accuracy clauses for that year. The
  magnitude is kept within \<open>2 ^ 53\<close>, where the number prints as its decimal digits.
\<close>

theorem year_descriptor_in_prompt:
  fixes n :: nat
  defines "P \<equiv> (\<lambda>la lo loc era w y cp style var.
                   textPrompt la lo loc era w (Some y) cp style var)"
  shows "(parseInt y = Some (- int n) \<and> 0 < n \<and> n \<le> 2 ^ 53 \<longrightarrow>
            includes_str (P la lo loc era w y cp style var) (natToString n @ '' B.C.'')
          \<and> includes_str (P la lo loc era w y cp style var)
               ''MODERN CITIES DO NOT EXIST. Do NOT show modern buildings, roads, or ruins.''
          \<and> includes_str (P la lo loc era w y cp style var) ''Show the NATURAL LANDSCAPE''
          \<and> includes_str (P la lo loc era w y cp style var)
               ''Clothing MUST be primitive and accurate to the region and era'')
       \<and> (parseInt y = Some (int n) \<and> n \<le> 2 ^ 53 \<longrightarrow>
            includes_str (P la lo loc era w y cp style var) (''the year '' @ y)
          \<and> includes_str (P la lo loc era w y cp style var)
               (''HISTORICAL ACCURACY: The year is '' @ y @ ''.'')
          \<and> includes_str (P la lo loc era w y cp style var)
               ''Ensure architecture, street signs, technology, and background details match this year.'')"
proof (intro conjI impI)
  assume a: "parseInt y = Some (- int n) \<and> 0 < n \<and> n \<le> 2 ^ 53"
  have td: "includes_str (P la lo loc era w y cp style var)
              (eraString era @ '' (Specifically '' @ natToString n @ '' B.C.)'')"
    using textPrompt_timeDescription[of la lo loc era w "Some y" cp style var]
          timeDescription_bc[of y n era] a
    by (simp add: P_def)
  have hi: "includes_str (P la lo loc era w y cp style var)
              (bcInstruction la lo (natToString n))"
    using textPrompt_historicInstruction[of la lo loc era w "Some y" cp style var]
          historicInstruction_bc[of y n la lo] a
    by (simp add: P_def)
  show "includes_str (P la lo loc era w y cp style var) (natToString n @ '' B.C.'')"
    using td descriptor_bc by (rule includes_str_trans)
  show "includes_str (P la lo loc era w y cp style var)
          ''MODERN CITIES DO NOT EXIST. Do NOT show modern buildings, roads, or ruins.''"
    using hi bc_modern by (rule includes_str_trans)
  show "includes_str (P la lo loc era w y cp style var) ''Show the NATURAL LANDSCAPE''"
    using hi bc_landscape by (rule includes_str_trans)
  show "includes_str (P la lo loc era w y cp style var)
          ''Clothing MUST be primitive and accurate to the region and era''"
    using hi bc_clothing by (rule includes_str_trans)
next
  assume a: "parseInt y = Some (int n) \<and> n \<le> 2 ^ 53"
  have td: "includes_str (P la lo loc era w y cp style var)
              (eraString era @ '' (Specifically the year '' @ y @ '')'')"
    using textPrompt_timeDescription[of la lo loc era w "Some y" cp style var]
          timeDescription_ad[of y n era] a
    by (simp add: P_def)
  have hi: "includes_str (P la lo loc era w y cp style var) (adInstruction y)"
    using textPrompt_historicInstruction[of la lo loc era w "Some y" cp style var]
          historicInstruction_ad[of y n la lo] a
    by (simp add: P_def)
  show "includes_str (P la lo loc era w y cp style var) (''the year '' @ y)"
    using td descriptor_ad by (rule includes_str_trans)
  show "includes_str (P la lo loc era w y cp style var)
          (''HISTORICAL ACCURACY: The year is '' @ y @ ''.'')"
    using hi ad_year by (rule includes_str_trans)
  show "includes_str (P la lo loc era w y cp style var)
          ''Ensure architecture, street signs, technology, and background details match this year.''"
    using hi ad_architecture by (rule includes_str_trans)
qed

lemma parseInt_minus_500: "parseInt ''-500'' = Some (- int 500)"
  by (simp add: parseInt_def isWhiteSpace_def isRadixDigit_def digitValue_def radixValue_def)

lemma parseInt_1950: "parseInt ''1950'' = Some (int 1950)"
  by (simp add: parseInt_def isWhiteSpace_def isRadixDigit_def digitValue_def radixValue_def)

lemma natToString_500: "natToString 500 = ''500''"
  by code_simp

theorem year_descriptor_in_prompt_witness:
  "parseInt ''-500'' = Some (- int 500) \<and> (0::nat) < 500 \<and> (500::nat) \<le> 2 ^ 53
   \<and> includes_str (textPrompt ''48.8584'' ''2.2945'' ''Eiffel Tower'' PAST ''Sunny''
         (Some ''-500'') None ''Cinematic'' ''Wide Angle Shot (Establishing Context)'')
       ''500 B.C.''
   \<and> includes_str (textPrompt ''48.8584'' ''2.2945'' ''Eiffel Tower'' PAST ''Sunny''
         (Some ''-500'') None ''Cinematic'' ''Wide Angle Shot (Establishing Context)'')
       ''Clothing MUST be primitive and accurate to the region and era''
   \<and> parseInt ''1950'' = Some (int 1950) \<and> (1950::nat) \<le> 2 ^ 53
   \<and> includes_str (textPrompt ''48.8584'' ''2.2945'' ''Eiffel Tower'' PAST ''Sunny''
         (Some ''1950'') None ''Cinematic'' ''Wide Angle Shot (Establishing Context)'')
       ''the year 1950''"
proof -
  have b: "(0::nat) < 500 \<and> (500::nat) \<le> 2 ^ 53" by simp
  have c: "(1950::nat) \<le> 2 ^ 53" by simp
  note bc = year_descriptor_in_prompt[of "''-500''" 500 "''48.8584''" "''2.2945''"
      "''Eiffel Tower''" PAST "''Sunny''" None "''Cinematic''"
      "''Wide Angle Shot (Establishing Context)''"]
  note ad = year_descriptor_in_prompt[of "''1950''" 1950 "''48.8584''" "''2.2945''"
      "''Eiffel Tower''" PAST "''Sunny''" None "''Cinematic''"
      "''Wide Angle Shot (Establishing Context)''"]
  from bc parseInt_minus_500 b natToString_500 have
    "includes_str (textPrompt ''48.8584'' ''2.2945'' ''Eiffel Tower'' PAST ''Sunny''
         (Some ''-500'') None ''Cinematic'' ''Wide Angle Shot (Establishing Context)'')
       ''500 B.C.''
     \<and> includes_str (textPrompt ''48.8584'' ''2.2945'' ''Eiffel Tower'' PAST ''Sunny''
         (Some ''-500'') None ''Cinematic'' ''Wide Angle Shot (Establishing Context)'')
       ''Clothing MUST be primitive and accurate to the region and era''"
    by simp
  moreover from ad parseInt_1950 c have
    "includes_str (textPrompt ''48.8584'' ''2.2945'' ''Eiffel Tower'' PAST ''Sunny''
         (Some ''1950'') None ''Cinematic'' ''Wide Angle Shot (Establishing Context)'')
       ''the year 1950''"
    by simp
  ultimately show ?thesis using parseInt_minus_500 parseInt_1950 b c by blast
qed
section \<open>The retry loop\<close>

lemma makeRequest_not_rate_limited:
  "svc k = Rejects e \<Longrightarrow> \<not> isRateLimit e \<Longrightarrow> makeRequest svc t i k = (Inl e, [Request t i])"
  by (subst makeRequest.simps) simp

lemma makeRequest_resolves:
  "svc k = Resolves r \<Longrightarrow> makeRequest svc t i k = (Inr r, [Request t i])"
  by (subst makeRequest.simps) simp

lemma makeRequest_exhausted:
  "svc k = Rejects e \<Longrightarrow> 2 \<le> k \<Longrightarrow> makeRequest svc t i k = (Inl e, [Request t i])"
  by (subst makeRequest.simps) simp

lemma makeRequest_nan_delay:
  "svc k = Rejects e \<Longrightarrow> retryDelay k e = None \<Longrightarrow> makeRequest svc t i k = (Inl e, [Request t i])"
  by (subst makeRequest.simps) simp

lemma makeRequest_long_delay:
  "svc k = Rejects e \<Longrightarrow> retryDelay k e = Some d \<Longrightarrow> 70000 \<le> d
     \<Longrightarrow> makeRequest svc t i k = (Inl e, [Request t i])"
  by (subst makeRequest.simps) simp

lemma makeRequest_retry:
  "svc k = Rejects e \<Longrightarrow> isRateLimit e \<Longrightarrow> k < 2 \<Longrightarrow> retryDelay k e = Some d \<Longrightarrow> d < 70000
     \<Longrightarrow> makeRequest svc t i k
           = (fst (makeRequest svc t i (k + 1)),
              Request t i # Wait d # snd (makeRequest svc t i (k + 1)))"
  by (subst makeRequest.simps) (simp add: case_prod_beta)

text \<open>Every invocation either stops after its one request or retries.\<close>

lemma makeRequest_cases:
  obtains (stop) "snd (makeRequest svc t i k) = [Request t i]"
  | (retry) e d where "svc k = Rejects e" "isRateLimit e" "k < 2" "retryDelay k e = Some d"
      "d < 70000"
      "makeRequest svc t i k
         = (fst (makeRequest svc t i (k + 1)),
            Request t i # Wait d # snd (makeRequest svc t i (k + 1)))"
proof (cases "svc k")
  case (Resolves r)
  then show ?thesis using stop makeRequest_resolves by simp
next
  case (Rejects e)
  show ?thesis
  proof (cases "isRateLimit e \<and> k < 2")
    case False
    then show ?thesis
      using stop Rejects makeRequest_not_rate_limited[of svc k e t i]
        makeRequest_exhausted[of svc k e t i] by fastforce
  next
    case True
    show ?thesis
    proof (cases "retryDelay k e")
      case None
      then show ?thesis using stop Rejects makeRequest_nan_delay by simp
    next
      case (Some d)
      show ?thesis
      proof (cases "d < 70000")
        case False
        then show ?thesis using stop Rejects Some makeRequest_long_delay[of svc k e d t i] by simp
      next
        case lt: True
        have "isRateLimit e" "k < 2" using True by simp_all
        then show ?thesis
          using retry[of e d] Rejects Some lt makeRequest_retry[of svc k e d t i] by blast
      qed
    qed
  qed
qed

lemma attempts_bound: "attempts (snd (makeRequest svc t i k)) + k \<le> 3 \<or> 2 < k"
proof (induction "3 - k" arbitrary: k)
  case 0
  then show ?case by simp
next
  case (Suc n)
  show ?case
  proof (cases rule: makeRequest_cases[of svc t i k])
    case stop
    then show ?thesis by (auto simp add: attempts_def)
  next
    case (retry e d)
    have "attempts (snd (makeRequest svc t i (k + 1))) + (k + 1) \<le> 3 \<or> 2 < k + 1"
      using Suc.hyps(1)[of "k + 1"] Suc.hyps(2) by simp
    then show ?thesis using retry by (simp add: attempts_def)
  qed
qed

lemma retries_bound: "retries (snd (makeRequest svc t i k)) + k \<le> 2 \<or> 2 \<le> k"
proof (induction "3 - k" arbitrary: k)
  case 0
  then show ?case by simp
next
  case (Suc n)
  show ?case
  proof (cases rule: makeRequest_cases[of svc t i k])
    case stop
    then show ?thesis by (auto simp add: retries_def)
  next
    case (retry e d)
    have "retries (snd (makeRequest svc t i (k + 1))) + (k + 1) \<le> 2 \<or> 2 \<le> k + 1"
      using Suc.hyps(1)[of "k + 1"] Suc.hyps(2) by simp
    moreover have "retries (snd (makeRequest svc t i (k + 1))) = 0" if "2 \<le> k + 1"
    proof (cases rule: makeRequest_cases[of svc t i "k + 1"])
      case stop
      then show ?thesis by (simp add: retries_def)
    next
      case (retry e d)
      then show ?thesis using that by simp
    qed
    ultimately show ?thesis using retry by (auto simp add: retries_def)
  qed
qed

lemma retried_only_rate_limited:
  "k \<le> j \<Longrightarrow> Suc j < k + attempts (snd (makeRequest svc t i k))
     \<Longrightarrow> \<exists>e. svc j = Rejects e \<and> isRateLimit e"
proof (induction "3 - k" arbitrary: k)
  case 0
  then have "2 < k" by simp
  then have "snd (makeRequest svc t i k) = [Request t i]"
    by (cases rule: makeRequest_cases[of svc t i k]) auto
  then show ?case using 0 by (simp add: attempts_def)
next
  case (Suc n)
  show ?case
  proof (cases rule: makeRequest_cases[of svc t i k])
    case stop
    then show ?thesis using Suc.prems by (simp add: attempts_def)
  next
    case (retry e d)
    show ?thesis
    proof (cases "j = k")
      case True
      then show ?thesis using retry by blast
    next
      case False
      then have "k + 1 \<le> j" using Suc.prems by simp
      moreover have "Suc j < (k + 1) + attempts (snd (makeRequest svc t i (k + 1)))"
        using Suc.prems retry by (simp add: attempts_def)
      ultimately show ?thesis using Suc.hyps(1)[of "k + 1"] Suc.hyps(2) by simp
    qed
  qed
qed

section \<open>The pattern for the suggested wait\<close>

lemma startsWith_iff: "startsWith s t \<longleftrightarrow> (\<exists>q. s = t @ q)"
  using startsWith_split startsWith_append by blast

lemma not_seconds_s: "\<not> isSecondsChar CHR ''s''"
  by (simp add: isSecondsChar_def)

lemma matchRetryAt_iff:
  "matchRetryAt s = Some c \<longleftrightarrow>
     (\<exists>q. s = ''retry in '' @ c @ ''s'' @ q \<and> c \<noteq> [] \<and> (\<forall>ch\<in>set c. isSecondsChar ch))"
proof
  assume m: "matchRetryAt s = Some c"
  then have sw: "startsWith s ''retry in ''"
    by (auto simp: matchRetryAt_def split: if_splits)
  then obtain r where r: "s = ''retry in '' @ r" using startsWith_split by blast
  then have d: "drop 9 s = r" by simp
  from m sw d have c: "c = takeWhile isSecondsChar r" and ne: "c \<noteq> []"
    and st: "startsWith (dropWhile isSecondsChar r) ''s''"
    by (auto simp: matchRetryAt_def Let_def split: if_splits)
  from st obtain q where q: "dropWhile isSecondsChar r = ''s'' @ q"
    using startsWith_split by blast
  have "r = takeWhile isSecondsChar r @ dropWhile isSecondsChar r" by simp
  then have "r = c @ ''s'' @ q" using c q by simp
  moreover have "\<forall>ch\<in>set c. isSecondsChar ch" using c by (auto dest: set_takeWhileD)
  ultimately show "\<exists>q. s = ''retry in '' @ c @ ''s'' @ q \<and> c \<noteq> [] \<and> (\<forall>ch\<in>set c. isSecondsChar ch)"
    using r ne by blast
next
  assume "\<exists>q. s = ''retry in '' @ c @ ''s'' @ q \<and> c \<noteq> [] \<and> (\<forall>ch\<in>set c. isSecondsChar ch)"
  then obtain q where s: "s = ''retry in '' @ (c @ ''s'' @ q)" and ne: "c \<noteq> []"
    and al: "\<forall>ch\<in>set c. isSecondsChar ch" by auto
  have sw: "startsWith s ''retry in ''" unfolding s by (rule startsWith_append)
  have d: "drop 9 s = c @ CHR ''s'' # q" unfolding s by simp
  have t: "takeWhile isSecondsChar (c @ CHR ''s'' # q) = c"
    using al not_seconds_s by (simp add: takeWhile_append2)
  have dw: "dropWhile isSecondsChar (c @ CHR ''s'' # q) = CHR ''s'' # q"
    using al not_seconds_s by (simp add: dropWhile_append2)
  show "matchRetryAt s = Some c"
    using sw ne by (simp add: matchRetryAt_def d t dw)
qed

lemma retryMatch_sound:
  "retryMatch m = Some c \<Longrightarrow>
     \<exists>p q. m = p @ ''retry in '' @ c @ ''s'' @ q \<and> c \<noteq> [] \<and> (\<forall>ch\<in>set c. isSecondsChar ch)"
proof (induction m)
  case Nil
  then show ?case by simp
next
  case (Cons a m)
  show ?case
  proof (cases "matchRetryAt (a # m)")
    case None
    with Cons.prems have "retryMatch m = Some c" by simp
    then obtain p q where "m = p @ ''retry in '' @ c @ ''s'' @ q" "c \<noteq> []"
      "\<forall>ch\<in>set c. isSecondsChar ch" using Cons.IH by blast
    then have "a # m = (a # p) @ ''retry in '' @ c @ ''s'' @ q \<and> c \<noteq> []
        \<and> (\<forall>ch\<in>set c. isSecondsChar ch)" by simp
    then show ?thesis by blast
  next
    case (Some c')
    with Cons.prems have "matchRetryAt (a # m) = Some c" by simp
    then obtain q where "a # m = [] @ ''retry in '' @ c @ ''s'' @ q" "c \<noteq> []"
      "\<forall>ch\<in>set c. isSecondsChar ch" using matchRetryAt_iff[of "a # m" c] by auto
    then show ?thesis by blast
  qed
qed

lemma retryMatch_complete:
  assumes "c \<noteq> []" "\<forall>ch\<in>set c. isSecondsChar ch"
  shows "retryMatch (p @ ''retry in '' @ c @ ''s'' @ q) \<noteq> None"
proof (induction p)
  case Nil
  have "matchRetryAt (''retry in '' @ c @ ''s'' @ q) = Some c"
    using assms matchRetryAt_iff by blast
  then show ?case by simp
next
  case (Cons a p)
  then show ?case by (simp split: option.splits)
qed

text \<open>
  Claim C3. One invocation of the request loop makes at most three attempts and waits at
  most twice; an attempt is followed by another only when it failed with an error that
  the loop classifies as rate-limited (status 429, or "429" in the message); an error
  that is not so classified is thrown at once, after its one request and no wait.
\<close>

theorem retries_bounded_and_only_rate_limited:
  "attempts (snd (makeRequest svc t i 0)) \<le> 3
   \<and> retries (snd (makeRequest svc t i 0)) \<le> 2
   \<and> (\<forall>j. Suc j < attempts (snd (makeRequest svc t i 0))
            \<longrightarrow> (\<exists>e. svc j = Rejects e \<and> isRateLimit e))
   \<and> (\<forall>k e. svc k = Rejects e \<and> \<not> isRateLimit e
            \<longrightarrow> makeRequest svc t i k = (Inl e, [Request t i]))
   \<and> (\<forall>e. isRateLimit e \<longleftrightarrow>
            (errStatus e = Some 429 \<or> (\<exists>m. message e = Some m \<and> includes_str m ''429'')))"
proof (intro conjI allI impI)
  show "attempts (snd (makeRequest svc t i 0)) \<le> 3"
    using attempts_bound[of svc t i 0] by simp
  show "retries (snd (makeRequest svc t i 0)) \<le> 2"
    using retries_bound[of svc t i 0] by simp
next
  fix j
  assume "Suc j < attempts (snd (makeRequest svc t i 0))"
  then show "\<exists>e. svc j = Rejects e \<and> isRateLimit e"
    using retried_only_rate_limited[of 0 j svc t i] by simp
next
  fix k e
  assume "svc k = Rejects e \<and> \<not> isRateLimit e"
  then show "makeRequest svc t i k = (Inl e, [Request t i])"
    using makeRequest_not_rate_limited by blast
next
  fix e
  show "isRateLimit e \<longleftrightarrow>
          (errStatus e = Some 429 \<or> (\<exists>m. message e = Some m \<and> includes_str m ''429''))"
    by (cases "message e") (auto simp: isRateLimit_def)
qed

lemma flaky_run:
  "makeRequest flakyService ''T'' None 0
     = (Inl (Error ''500 Internal error''),
        [Request ''T'' None, Wait 3000, Request ''T'' None])"
  by (simp add: makeRequest.simps flakyService_def isRateLimit_def retryDelay_def
      errorRetryMatch_def Error_def)

lemma always_limited_run:
  "makeRequest (alwaysLimited error429) ''T'' None 0
     = (Inl error429,
        [Request ''T'' None, Wait 3000, Request ''T'' None, Wait 6000, Request ''T'' None])"
  by (simp add: makeRequest.simps alwaysLimited_def error429_def isRateLimit_def retryDelay_def
      errorRetryMatch_def)

theorem retries_bounded_and_only_rate_limited_witness:
  "attempts (snd (makeRequest (alwaysLimited error429) ''T'' None 0)) = 3
   \<and> retries (snd (makeRequest (alwaysLimited error429) ''T'' None 0)) = 2
   \<and> Suc 0 < attempts (snd (makeRequest flakyService ''T'' None 0))
   \<and> (\<exists>e. flakyService 0 = Rejects e \<and> isRateLimit e)
   \<and> flakyService 1 = Rejects (Error ''500 Internal error'')
   \<and> \<not> isRateLimit (Error ''500 Internal error'')
   \<and> makeRequest flakyService ''T'' None 1
        = (Inl (Error ''500 Internal error''), [Request ''T'' None])"
proof -
  have a: "Suc 0 < attempts (snd (makeRequest flakyService ''T'' None 0))"
    by (simp add: flaky_run attempts_def)
  have b: "flakyService 1 = Rejects (Error ''500 Internal error'')
           \<and> \<not> isRateLimit (Error ''500 Internal error'')"
    by (simp add: flakyService_def isRateLimit_def Error_def)
  note th = retries_bounded_and_only_rate_limited[of flakyService "''T''" None]
  from th a have "\<exists>e. flakyService 0 = Rejects e \<and> isRateLimit e" by blast
  moreover from th b have "makeRequest flakyService ''T'' None 1
        = (Inl (Error ''500 Internal error''), [Request ''T'' None])" by blast
  moreover have "attempts (snd (makeRequest (alwaysLimited error429) ''T'' None 0)) = 3
      \<and> retries (snd (makeRequest (alwaysLimited error429) ''T'' None 0)) = 2"
    by (simp add: always_limited_run attempts_def retries_def)
  ultimately show ?thesis using a b by blast
qed

text \<open>
  Claim C2. A capture \<open>c\<close> is what the message holds between "retry in " and "s" at
  the leftmost match of the pattern; there is none exactly when the message has no text
  of that form. For a failed attempt at retry count \<open>k\<close>: with a capture that reads as
  the number \<open>s\<close>, the delay is \<open>ceil(s) * 1000 + 2000\<close> milliseconds; with no capture
  it is \<open>3000 * 2 ^ k\<close>. A rate-limited attempt with \<open>k < 2\<close> whose delay is under
  70000 waits exactly that delay and asks again; a delay over 70000, or a capture that
  is no number, makes the loop throw the error at once, with no wait and no further
  request. A suggested "5s" waits 7000, and a suggested "80s" is thrown at once. The
  capture is kept to 15 characters, where the rounding of \<open>parseFloat\<close> to a double
  does not change its ceiling.
\<close>

theorem retry_delay_policy:
  "(errorRetryMatch e = Some c
      \<longrightarrow> (\<exists>pre post. message e = Some (pre @ ''retry in '' @ c @ ''s'' @ post)
             \<and> c \<noteq> [] \<and> (\<forall>ch\<in>set c. isSecondsChar ch)))
   \<and> (errorRetryMatch e = None
      \<longrightarrow> \<not> (\<exists>pre c' post. message e = Some (pre @ ''retry in '' @ c' @ ''s'' @ post)
             \<and> c' \<noteq> [] \<and> (\<forall>ch\<in>set c'. isSecondsChar ch)))
   \<and> (errorRetryMatch e = Some c \<and> length c \<le> 15 \<and> parseFloat c = Some x
        \<and> \<lceil>x\<rceil> * 1000 + 2000 \<le> 2 ^ 53
      \<longrightarrow> retryDelay k e = Some (\<lceil>x\<rceil> * 1000 + 2000))
   \<and> (errorRetryMatch e = None \<longrightarrow> retryDelay k e = Some (3000 * 2 ^ k))
   \<and> (svc k = Rejects e \<and> isRateLimit e \<and> k < 2
        \<and> errorRetryMatch e = Some c \<and> length c \<le> 15 \<and> parseFloat c = Some x
        \<and> \<lceil>x\<rceil> * 1000 + 2000 < 70000
      \<longrightarrow> makeRequest svc t i k
            = (fst (makeRequest svc t i (k + 1)),
               Request t i # Wait (\<lceil>x\<rceil> * 1000 + 2000) # snd (makeRequest svc t i (k + 1))))
   \<and> (svc k = Rejects e \<and> isRateLimit e \<and> k < 2 \<and> errorRetryMatch e = None
      \<longrightarrow> makeRequest svc t i k
            = (fst (makeRequest svc t i (k + 1)),
               Request t i # Wait (3000 * 2 ^ k) # snd (makeRequest svc t i (k + 1))))
   \<and> (svc k = Rejects e
        \<and> errorRetryMatch e = Some c \<and> length c \<le> 15 \<and> parseFloat c = Some x
        \<and> 70000 < \<lceil>x\<rceil> * 1000 + 2000
      \<longrightarrow> makeRequest svc t i k = (Inl e, [Request t i]))
   \<and> (svc k = Rejects e \<and> errorRetryMatch e = Some c \<and> parseFloat c = None
      \<longrightarrow> makeRequest svc t i k = (Inl e, [Request t i]))
   \<and> (svc k = Rejects (Error ''429 Quota exceeded. Please retry in 5s.'') \<and> k < 2
      \<longrightarrow> makeRequest svc t i k
            = (fst (makeRequest svc t i (k + 1)),
               Request t i # Wait 7000 # snd (makeRequest svc t i (k + 1))))
   \<and> (svc k = Rejects (Error ''429 Quota exceeded. Please retry in 80s.'')
      \<longrightarrow> makeRequest svc t i k
            = (Inl (Error ''429 Quota exceeded. Please retry in 80s.''), [Request t i]))"
proof (intro conjI impI)
  assume a: "errorRetryMatch e = Some c"
  then obtain m where m: "message e = Some m" "retryMatch m = Some c"
    by (cases "message e") (auto simp: errorRetryMatch_def)
  then obtain pre post where "m = pre @ ''retry in '' @ c @ ''s'' @ post" "c \<noteq> []"
    "\<forall>ch\<in>set c. isSecondsChar ch"
    using retryMatch_sound[of m c] by blast
  then show "\<exists>pre post. message e = Some (pre @ ''retry in '' @ c @ ''s'' @ post)
             \<and> c \<noteq> [] \<and> (\<forall>ch\<in>set c. isSecondsChar ch)"
    using m by blast
next
  assume a: "errorRetryMatch e = None"
  show "\<not> (\<exists>pre c' post. message e = Some (pre @ ''retry in '' @ c' @ ''s'' @ post)
             \<and> c' \<noteq> [] \<and> (\<forall>ch\<in>set c'. isSecondsChar ch))"
  proof
    assume "\<exists>pre c' post. message e = Some (pre @ ''retry in '' @ c' @ ''s'' @ post)
             \<and> c' \<noteq> [] \<and> (\<forall>ch\<in>set c'. isSecondsChar ch)"
    then obtain pre c' post where
      m: "message e = Some (pre @ ''retry in '' @ c' @ ''s'' @ post)"
      and c: "c' \<noteq> []" "\<forall>ch\<in>set c'. isSecondsChar ch"
      by blast
    have "retryMatch (pre @ ''retry in '' @ c' @ ''s'' @ post) \<noteq> None"
      using c by (rule retryMatch_complete)
    then show False using a m by (simp add: errorRetryMatch_def)
  qed
next
  assume "errorRetryMatch e = Some c \<and> length c \<le> 15 \<and> parseFloat c = Some x
        \<and> \<lceil>x\<rceil> * 1000 + 2000 \<le> 2 ^ 53"
  then show "retryDelay k e = Some (\<lceil>x\<rceil> * 1000 + 2000)"
    by (simp add: retryDelay_def ceilSeconds_def)
next
  assume "errorRetryMatch e = None"
  then show "retryDelay k e = Some (3000 * 2 ^ k)"
    by (simp add: retryDelay_def)
next
  assume a: "svc k = Rejects e \<and> isRateLimit e \<and> k < 2
        \<and> errorRetryMatch e = Some c \<and> length c \<le> 15 \<and> parseFloat c = Some x
        \<and> \<lceil>x\<rceil> * 1000 + 2000 < 70000"
  then have "retryDelay k e = Some (\<lceil>x\<rceil> * 1000 + 2000)"
    by (simp add: retryDelay_def ceilSeconds_def)
  then show "makeRequest svc t i k
            = (fst (makeRequest svc t i (k + 1)),
               Request t i # Wait (\<lceil>x\<rceil> * 1000 + 2000) # snd (makeRequest svc t i (k + 1)))"
    using a makeRequest_retry[of svc k e "\<lceil>x\<rceil> * 1000 + 2000" t i] by blast
next
  assume a: "svc k = Rejects e \<and> isRateLimit e \<and> k < 2 \<and> errorRetryMatch e = None"
  then have d: "retryDelay k e = Some (3000 * 2 ^ k)"
    by (simp add: retryDelay_def)
  from a have "k = 0 \<or> k = 1" by auto
  then have "(3000 * 2 ^ k :: int) < 70000" by auto
  then show "makeRequest svc t i k
            = (fst (makeRequest svc t i (k + 1)),
               Request t i # Wait (3000 * 2 ^ k) # snd (makeRequest svc t i (k + 1)))"
    using a d makeRequest_retry[of svc k e "3000 * 2 ^ k" t i] by blast
next
  assume a: "svc k = Rejects e
        \<and> errorRetryMatch e = Some c \<and> length c \<le> 15 \<and> parseFloat c = Some x
        \<and> 70000 < \<lceil>x\<rceil> * 1000 + 2000"
  then have "retryDelay k e = Some (\<lceil>x\<rceil> * 1000 + 2000)"
    by (simp add: retryDelay_def ceilSeconds_def)
  then show "makeRequest svc t i k = (Inl e, [Request t i])"
    using a makeRequest_long_delay[of svc k e "\<lceil>x\<rceil> * 1000 + 2000" t i] by simp
next
  assume a: "svc k = Rejects e \<and> errorRetryMatch e = Some c \<and> parseFloat c = None"
  then have "retryDelay k e = None"
    by (simp add: retryDelay_def ceilSeconds_def)
  then show "makeRequest svc t i k = (Inl e, [Request t i])"
    using a makeRequest_nan_delay[of svc k e t i] by simp
next
  assume a: "svc k = Rejects (Error ''429 Quota exceeded. Please retry in 5s.'') \<and> k < 2"
  have d: "retryDelay k (Error ''429 Quota exceeded. Please retry in 5s.'') = Some 7000"
    by (simp add: retryDelay_def errorRetryMatch_def ceilSeconds_def Error_def matchRetryAt_def
        parseFloat_def isSecondsChar_def isDecimalDigit_def radixValue_def digitValue_def)
  have r: "isRateLimit (Error ''429 Quota exceeded. Please retry in 5s.'')"
    by (simp add: isRateLimit_def Error_def)
  show "makeRequest svc t i k
            = (fst (makeRequest svc t i (k + 1)),
               Request t i # Wait 7000 # snd (makeRequest svc t i (k + 1)))"
    using a d r
      makeRequest_retry[of svc k "Error ''429 Quota exceeded. Please retry in 5s.''" 7000 t i]
    by simp
next
  assume a: "svc k = Rejects (Error ''429 Quota exceeded. Please retry in 80s.'')"
  have "retryDelay k (Error ''429 Quota exceeded. Please retry in 80s.'') = Some 82000"
    by (simp add: retryDelay_def errorRetryMatch_def ceilSeconds_def Error_def matchRetryAt_def
        parseFloat_def isSecondsChar_def isDecimalDigit_def radixValue_def digitValue_def)
  then show "makeRequest svc t i k
              = (Inl (Error ''429 Quota exceeded. Please retry in 80s.''), [Request t i])"
    using a makeRequest_long_delay[of svc k "Error ''429 Quota exceeded. Please retry in 80s.''" 82000 t i]
    by simp
qed

lemma error5_match: "errorRetryMatch error5 = Some ''5''"
  by (simp add: error5_def errorRetryMatch_def Error_def matchRetryAt_def isSecondsChar_def)

lemma error80_match: "errorRetryMatch error80 = Some ''80''"
  by (simp add: error80_def errorRetryMatch_def Error_def matchRetryAt_def isSecondsChar_def)

lemma errorDot_match: "errorRetryMatch errorDot = Some ''.''"
  by (simp add: errorDot_def errorRetryMatch_def Error_def matchRetryAt_def isSecondsChar_def)

lemma parseFloat_5: "parseFloat ''5'' = Some 5"
  by (simp add: parseFloat_def isDecimalDigit_def radixValue_def digitValue_def)

lemma parseFloat_80: "parseFloat ''80'' = Some 80"
  by (simp add: parseFloat_def isDecimalDigit_def radixValue_def digitValue_def)

lemma parseFloat_dot: "parseFloat ''.'' = None"
  by (simp add: parseFloat_def isDecimalDigit_def)

lemma error429_facts: "errorRetryMatch error429 = None \<and> isRateLimit error429"
  by (simp add: error429_def errorRetryMatch_def isRateLimit_def)

lemma error5_rate_limited: "isRateLimit error5"
  by (simp add: error5_def isRateLimit_def Error_def)

theorem retry_delay_policy_witness:
  "errorRetryMatch error5 = Some ''5'' \<and> length ''5'' \<le> 15 \<and> parseFloat ''5'' = Some 5
   \<and> (\<exists>pre post. message error5 = Some (pre @ ''retry in '' @ ''5'' @ ''s'' @ post))
   \<and> retryDelay 0 error5 = Some 7000
   \<and> onceLimited error5 0 = Rejects error5 \<and> isRateLimit error5 \<and> (0::nat) < 2
   \<and> makeRequest (onceLimited error5) ''T'' None 0
        = (Inr [Part (Some ''AAAA'')], [Request ''T'' None, Wait 7000, Request ''T'' None])
   \<and> errorRetryMatch error429 = None \<and> isRateLimit error429
   \<and> retryDelay 0 error429 = Some 3000 \<and> retryDelay 1 error429 = Some 6000
   \<and> alwaysLimited error429 0 = Rejects error429 \<and> alwaysLimited error429 1 = Rejects error429
   \<and> makeRequest (alwaysLimited error429) ''T'' None 0
        = (Inl error429,
           [Request ''T'' None, Wait 3000, Request ''T'' None, Wait 6000, Request ''T'' None])
   \<and> errorRetryMatch error80 = Some ''80'' \<and> length ''80'' \<le> 15 \<and> parseFloat ''80'' = Some 80
   \<and> onceLimited error80 0 = Rejects error80
   \<and> makeRequest (onceLimited error80) ''T'' None 0 = (Inl error80, [Request ''T'' None])
   \<and> errorRetryMatch errorDot = Some ''.'' \<and> parseFloat ''.'' = None
   \<and> onceLimited errorDot 0 = Rejects errorDot
   \<and> makeRequest (onceLimited errorDot) ''T'' None 0 = (Inl errorDot, [Request ''T'' None])"
proof -
  note p5 = retry_delay_policy[of error5 "''5''" 5 0 "onceLimited error5" "''T''" None]
  note q0 = retry_delay_policy[of error429 "''5''" 5 0 "alwaysLimited error429" "''T''" None]
  note q1 = retry_delay_policy[of error429 "''5''" 5 1 "alwaysLimited error429" "''T''" None]
  note p80 = retry_delay_policy[of error80 "''80''" 80 0 "onceLimited error80" "''T''" None]
  note pd = retry_delay_policy[of errorDot "''.''" 5 0 "onceLimited errorDot" "''T''" None]
  note p5_pattern = p5[THEN conjunct1]
  note p5_delay = p5[THEN conjunct2, THEN conjunct2, THEN conjunct1]
  note p5_wait = p5[THEN conjunct2, THEN conjunct2, THEN conjunct2, THEN conjunct2,
      THEN conjunct1]
  note q0_delay = q0[THEN conjunct2, THEN conjunct2, THEN conjunct2, THEN conjunct1]
  note q1_delay = q1[THEN conjunct2, THEN conjunct2, THEN conjunct2, THEN conjunct1]
  note q0_wait = q0[THEN conjunct2, THEN conjunct2, THEN conjunct2, THEN conjunct2,
      THEN conjunct2, THEN conjunct1]
  note q1_wait = q1[THEN conjunct2, THEN conjunct2, THEN conjunct2, THEN conjunct2,
      THEN conjunct2, THEN conjunct1]
  note p80_throw = p80[THEN conjunct2, THEN conjunct2, THEN conjunct2, THEN conjunct2,
      THEN conjunct2, THEN conjunct2, THEN conjunct1]
  note pd_throw = pd[THEN conjunct2, THEN conjunct2, THEN conjunct2, THEN conjunct2,
      THEN conjunct2, THEN conjunct2, THEN conjunct2, THEN conjunct1]
  have l5: "length ''5'' \<le> 15" and l80: "length ''80'' \<le> 15" by simp_all
  have ex5: "\<exists>pre post. message error5 = Some (pre @ ''retry in '' @ ''5'' @ ''s'' @ post)"
    using p5_pattern error5_match by blast
  have d5: "retryDelay 0 error5 = Some 7000"
    using p5_delay error5_match parseFloat_5 l5 by simp
  have s5: "onceLimited error5 0 = Rejects error5" by (simp add: onceLimited_def)
  have next5: "makeRequest (onceLimited error5) ''T'' None (0 + 1)
                 = (Inr [Part (Some ''AAAA'')], [Request ''T'' None])"
    by (simp add: makeRequest_resolves onceLimited_def)
  have h5: "onceLimited error5 0 = Rejects error5 \<and> isRateLimit error5 \<and> (0::nat) < 2
        \<and> errorRetryMatch error5 = Some ''5'' \<and> length ''5'' \<le> 15 \<and> parseFloat ''5'' = Some 5
        \<and> \<lceil>5::rat\<rceil> * 1000 + 2000 < 70000"
    using s5 error5_rate_limited error5_match parseFloat_5 by simp
  have r5: "makeRequest (onceLimited error5) ''T'' None 0
        = (Inr [Part (Some ''AAAA'')], [Request ''T'' None, Wait 7000, Request ''T'' None])"
    using p5_wait[THEN mp, OF h5] unfolding next5 by simp
  have d0: "retryDelay 0 error429 = Some 3000"
    using q0_delay error429_facts by simp
  have d1: "retryDelay 1 error429 = Some 6000"
    using q1_delay error429_facts by simp
  have a0: "alwaysLimited error429 0 = Rejects error429"
    and a1: "alwaysLimited error429 1 = Rejects error429"
    by (simp_all add: alwaysLimited_def)
  have m2: "makeRequest (alwaysLimited error429) ''T'' None (1 + 1)
              = (Inl error429, [Request ''T'' None])"
    using makeRequest_exhausted[of "alwaysLimited error429" "1 + 1" error429 "''T''" None]
    by (simp add: alwaysLimited_def)
  have h1: "alwaysLimited error429 1 = Rejects error429 \<and> isRateLimit error429 \<and> (1::nat) < 2
        \<and> errorRetryMatch error429 = None"
    using a1 error429_facts by simp
  have m1: "makeRequest (alwaysLimited error429) ''T'' None (0 + 1)
              = (Inl error429, [Request ''T'' None, Wait 6000, Request ''T'' None])"
    using q1_wait[THEN mp, OF h1] unfolding m2 by simp
  have h0: "alwaysLimited error429 0 = Rejects error429 \<and> isRateLimit error429 \<and> (0::nat) < 2
        \<and> errorRetryMatch error429 = None"
    using a0 error429_facts by simp
  have m0: "makeRequest (alwaysLimited error429) ''T'' None 0
        = (Inl error429,
           [Request ''T'' None, Wait 3000, Request ''T'' None, Wait 6000, Request ''T'' None])"
    using q0_wait[THEN mp, OF h0] unfolding m1 by simp
  have s80: "onceLimited error80 0 = Rejects error80" by (simp add: onceLimited_def)
  have h80: "onceLimited error80 0 = Rejects error80
        \<and> errorRetryMatch error80 = Some ''80'' \<and> length ''80'' \<le> 15
        \<and> parseFloat ''80'' = Some 80 \<and> 70000 < \<lceil>80::rat\<rceil> * 1000 + 2000"
    using s80 error80_match parseFloat_80 by simp
  have r80: "makeRequest (onceLimited error80) ''T'' None 0 = (Inl error80, [Request ''T'' None])"
    using p80_throw[THEN mp, OF h80] .
  have sd: "onceLimited errorDot 0 = Rejects errorDot" by (simp add: onceLimited_def)
  have hd: "onceLimited errorDot 0 = Rejects errorDot \<and> errorRetryMatch errorDot = Some ''.''
        \<and> parseFloat ''.'' = None"
    using sd errorDot_match parseFloat_dot by simp
  have rd: "makeRequest (onceLimited errorDot) ''T'' None 0 = (Inl errorDot, [Request ''T'' None])"
    using pd_throw[THEN mp, OF hd] .
  show ?thesis
    using error5_match l5 parseFloat_5 ex5 d5 s5 error5_rate_limited r5 error429_facts d0 d1
      a0 a1 m0 error80_match l80 parseFloat_80 s80 r80 errorDot_match parseFloat_dot sd rd
    by simp
qed

section \<open>Extracting the JSON object\<close>

lemma dropWhile_neq_notin:
  "a \<notin> set xs \<Longrightarrow> dropWhile (\<lambda>c. c \<noteq> a) (xs @ ys) = dropWhile (\<lambda>c. c \<noteq> a) ys"
  by (induction xs) auto

lemma dropWhile_neq_in:
  "a \<in> set xs \<Longrightarrow> dropWhile (\<lambda>c. c \<noteq> a) (xs @ ys) = dropWhile (\<lambda>c. c \<noteq> a) xs @ ys"
  by (induction xs) auto

lemma dropWhile_neq_nil: "a \<notin> set xs \<Longrightarrow> dropWhile (\<lambda>c. c \<noteq> a) xs = []"
  by (induction xs) auto

lemma upToLastClose_eq:
  "upToLastClose cs =
     (if CHR ''}'' \<in> set cs then Some (rev (dropWhile (\<lambda>c. c \<noteq> CHR ''}'') (rev cs))) else None)"
proof (induction cs)
  case Nil
  show ?case by simp
next
  case (Cons c cs)
  show ?case
  proof (cases "CHR ''}'' \<in> set cs")
    case True
    then have "dropWhile (\<lambda>c. c \<noteq> CHR ''}'') (rev cs @ [c])
                 = dropWhile (\<lambda>c. c \<noteq> CHR ''}'') (rev cs) @ [c]"
      by (simp add: dropWhile_neq_in)
    then show ?thesis using True Cons.IH by simp
  next
    case False
    then have d: "dropWhile (\<lambda>c. c \<noteq> CHR ''}'') (rev cs @ [c])
                 = dropWhile (\<lambda>c. c \<noteq> CHR ''}'') [c]"
      by (simp add: dropWhile_neq_notin)
    have n: "upToLastClose cs = None" using False Cons.IH by simp
    show ?thesis
    proof (cases "c = CHR ''}''")
      case True
      then show ?thesis using n d by simp
    next
      case False
      then show ?thesis using n d \<open>CHR ''}'' \<notin> set cs\<close> by simp
    qed
  qed
qed

lemma jsonMatch_no_close: "CHR ''}'' \<notin> set t \<Longrightarrow> jsonMatch t = None"
  by (induction t) (auto simp: upToLastClose_eq)

text \<open>The matcher of the code finds the span the specification describes.\<close>

lemma jsonMatch_eq_span: "jsonMatch t = firstOpenToLastClose t"
proof (induction t)
  case Nil
  show ?case by (simp add: firstOpenToLastClose_def)
next
  case (Cons c cs)
  show ?case
  proof (cases "c = CHR ''{''")
    case False
    then show ?thesis using Cons.IH by (simp add: firstOpenToLastClose_def)
  next
    case open_here: True
    show ?thesis
    proof (cases "CHR ''}'' \<in> set cs")
      case True
      then have ne: "dropWhile (\<lambda>c. c \<noteq> CHR ''}'') (rev cs) \<noteq> []"
        by (simp add: dropWhile_eq_Nil_conv)
      show ?thesis using open_here True ne
        by (simp add: firstOpenToLastClose_def upToLastClose_eq)
    next
      case False
      then have "dropWhile (\<lambda>c. c \<noteq> CHR ''}'') (rev cs) = []"
        by (simp add: dropWhile_neq_nil)
      then show ?thesis using open_here False jsonMatch_no_close[of cs]
        by (simp add: firstOpenToLastClose_def upToLastClose_eq)
    qed
  qed
qed

lemma span_decompose:
  assumes "firstOpenToLastClose t = Some m"
  shows "\<exists>pre body post. t = pre @ m @ post \<and> m = ''{'' @ body @ ''}''
           \<and> CHR ''{'' \<notin> set pre \<and> CHR ''}'' \<notin> set post"
proof -
  define pre where "pre = takeWhile (\<lambda>c. c \<noteq> CHR ''{'') t"
  define r where "r = dropWhile (\<lambda>c. c \<noteq> CHR ''{'') t"
  define r' where "r' = drop 1 r"
  define b where "b = rev (dropWhile (\<lambda>c. c \<noteq> CHR ''}'') (rev r'))"
  define post where "post = rev (takeWhile (\<lambda>c. c \<noteq> CHR ''}'') (rev r'))"
  from assms have rne: "r \<noteq> []" and bne: "b \<noteq> []" and m: "m = CHR ''{'' # b"
    by (auto simp: firstOpenToLastClose_def Let_def r_def b_def r'_def split: if_splits)
  have t: "t = pre @ r" by (simp add: pre_def r_def)
  have "hd r = CHR ''{''" using rne hd_dropWhile[of "\<lambda>c. c \<noteq> CHR ''{''" t] by (simp add: r_def)
  then have r: "r = CHR ''{'' # r'" using rne by (cases r) (auto simp: r'_def)
  have "rev r' = takeWhile (\<lambda>c. c \<noteq> CHR ''}'') (rev r') @ dropWhile (\<lambda>c. c \<noteq> CHR ''}'') (rev r')"
    by simp
  then have "rev (rev r') = b @ post" unfolding b_def post_def
    by (metis rev_append)
  then have r': "r' = b @ post" by simp
  have dne: "dropWhile (\<lambda>c. c \<noteq> CHR ''}'') (rev r') \<noteq> []" using bne by (simp add: b_def)
  then have "hd (dropWhile (\<lambda>c. c \<noteq> CHR ''}'') (rev r')) = CHR ''}''"
    using hd_dropWhile[of "\<lambda>c. c \<noteq> CHR ''}''" "rev r'"] by simp
  then have "last b = CHR ''}''" using dne by (simp add: b_def last_rev)
  then obtain body where body: "b = body @ ''}''"
    using bne by (metis append_butlast_last_id)
  have p1: "CHR ''{'' \<notin> set pre" unfolding pre_def by (auto dest: set_takeWhileD)
  have p2: "CHR ''}'' \<notin> set post" unfolding post_def by (auto dest: set_takeWhileD)
  have "t = pre @ m @ post" using t r r' m by simp
  moreover have "m = ''{'' @ body @ ''}''" using m body by simp
  ultimately show ?thesis using p1 p2 by blast
qed

lemma span_compose:
  assumes "t = pre @ m @ post" "m = ''{'' @ body @ ''}''"
    "CHR ''{'' \<notin> set pre" "CHR ''}'' \<notin> set post"
  shows "firstOpenToLastClose t = Some m"
proof -
  have t: "t = pre @ CHR ''{'' # (body @ ''}'' @ post)" using assms by simp
  have d: "dropWhile (\<lambda>c. c \<noteq> CHR ''{'') t = CHR ''{'' # (body @ ''}'' @ post)"
    unfolding t using assms(3) by (simp add: dropWhile_neq_notin)
  have "rev (body @ ''}'' @ post) = rev post @ CHR ''}'' # rev body" by simp
  then have "dropWhile (\<lambda>c. c \<noteq> CHR ''}'') (rev (body @ ''}'' @ post)) = CHR ''}'' # rev body"
    using assms(4) by (simp add: dropWhile_neq_notin)
  then show ?thesis using assms(2) by (simp add: firstOpenToLastClose_def d)
qed

text \<open>
  Claim C8. The text handed to the parser is the span from the first opening brace of
  the response through the last closing brace after it: the response splits into a part
  with no opening brace, the span, and a part with no closing brace. When the response
  has no such span, the body of the resolver throws "Failed to parse location JSON",
  which the resolver then answers with the fallback record. With a credential and a
  response text, the resolver returns what the parser makes of that span, and the
  fallback record when there is no span or the parser rejects it.
\<close>

theorem json_span_extraction:
  "(jsonMatch t = Some m \<longleftrightarrow>
      (\<exists>pre body post. t = pre @ m @ post \<and> m = ''{'' @ body @ ''}''
          \<and> CHR ''{'' \<notin> set pre \<and> CHR ''}'' \<notin> set post))
   \<and> jsonMatch t = firstOpenToLastClose t
   \<and> (svc la lo = Resolves (Some t) \<and> jsonMatch t = Some m
        \<longrightarrow> analyzeBody parse svc la lo = parse m)
   \<and> (svc la lo = Resolves (Some t) \<and> t \<noteq> [] \<and> jsonMatch t = None
        \<longrightarrow> analyzeBody parse svc la lo = Inl (Error ''Failed to parse location JSON'')
            \<and> (key \<noteq> [] \<longrightarrow> analyzeLocation parse svc la lo key = Inr fallbackContext))
   \<and> (key \<noteq> [] \<and> svc la lo = Resolves (Some t) \<and> jsonMatch t = Some m
        \<longrightarrow> analyzeLocation parse svc la lo key
              = (case parse m of Inl e \<Rightarrow> Inr fallbackContext | Inr context \<Rightarrow> Inr context))
   \<and> (key \<noteq> [] \<and> svc la lo = Resolves (Some t) \<and> t \<noteq> []
        \<longrightarrow> analyzeLocation parse svc la lo key
              = (case firstOpenToLastClose t of
                   None \<Rightarrow> Inr fallbackContext
                 | Some m' \<Rightarrow>
                     (case parse m' of Inl e \<Rightarrow> Inr fallbackContext
                                     | Inr context \<Rightarrow> Inr context)))"
proof (intro conjI impI)
  show "jsonMatch t = Some m \<longleftrightarrow>
      (\<exists>pre body post. t = pre @ m @ post \<and> m = ''{'' @ body @ ''}''
          \<and> CHR ''{'' \<notin> set pre \<and> CHR ''}'' \<notin> set post)"
    using span_decompose[of t m] span_compose[of t _ m] jsonMatch_eq_span[of t] by metis
  show "jsonMatch t = firstOpenToLastClose t" by (rule jsonMatch_eq_span)
next
  assume a: "svc la lo = Resolves (Some t) \<and> jsonMatch t = Some m"
  then have "t \<noteq> []" by auto
  then show "analyzeBody parse svc la lo = parse m"
    using a by (simp add: analyzeBody_def)
next
  assume a: "svc la lo = Resolves (Some t) \<and> t \<noteq> [] \<and> jsonMatch t = None"
  then show b: "analyzeBody parse svc la lo = Inl (Error ''Failed to parse location JSON'')"
    by (simp add: analyzeBody_def)
  assume "key \<noteq> []"
  then show "analyzeLocation parse svc la lo key = Inr fallbackContext"
    using b by (simp add: analyzeLocation_def)
next
  assume a: "key \<noteq> [] \<and> svc la lo = Resolves (Some t) \<and> jsonMatch t = Some m"
  then have "t \<noteq> []" by auto
  then show "analyzeLocation parse svc la lo key
              = (case parse m of Inl e \<Rightarrow> Inr fallbackContext | Inr context \<Rightarrow> Inr context)"
    using a by (simp add: analyzeLocation_def analyzeBody_def split: sum.splits)
next
  assume a: "key \<noteq> [] \<and> svc la lo = Resolves (Some t) \<and> t \<noteq> []"
  then show "analyzeLocation parse svc la lo key
              = (case firstOpenToLastClose t of
                   None \<Rightarrow> Inr fallbackContext
                 | Some m' \<Rightarrow>
                     (case parse m' of Inl e \<Rightarrow> Inr fallbackContext
                                     | Inr context \<Rightarrow> Inr context))"
    using jsonMatch_eq_span[of t]
    by (simp add: analyzeLocation_def analyzeBody_def split: sum.splits option.splits)
qed

theorem json_span_extraction_witness:
  "jsonMatch ''Sure: {a} and {b}.'' = Some ''{a} and {b}''
   \<and> answers (Some ''Sure: {a} and {b}.'') ''48.8584'' ''2.2945'' = Resolves (Some ''Sure: {a} and {b}.'')
   \<and> analyzeBody sampleParse (answers (Some ''Sure: {a} and {b}.'')) ''48.8584'' ''2.2945''
        = Inr sampleContext
   \<and> analyzeLocation sampleParse (answers (Some ''Sure: {a} and {b}.'')) ''48.8584'' ''2.2945''
        ''key'' = Inr sampleContext
   \<and> sampleContext \<noteq> fallbackContext
   \<and> answers (Some ''I cannot help.'') ''48.8584'' ''2.2945'' = Resolves (Some ''I cannot help.'')
   \<and> ''I cannot help.'' \<noteq> [] \<and> jsonMatch ''I cannot help.'' = None
   \<and> analyzeBody sampleParse (answers (Some ''I cannot help.'')) ''48.8584'' ''2.2945''
        = Inl (Error ''Failed to parse location JSON'')
   \<and> ''key'' \<noteq> []
   \<and> analyzeLocation sampleParse (answers (Some ''I cannot help.'')) ''48.8584'' ''2.2945'' ''key''
        = Inr fallbackContext"
proof -
  note yes = json_span_extraction[of "''Sure: {a} and {b}.''" "''{a} and {b}''"
      "answers (Some ''Sure: {a} and {b}.'')" "''48.8584''" "''2.2945''" sampleParse "''key''"]
  note no = json_span_extraction[of "''I cannot help.''" "''{}''"
      "answers (Some ''I cannot help.'')" "''48.8584''" "''2.2945''" sampleParse "''key''"]
  have "''Sure: {a} and {b}.'' = ''Sure: '' @ ''{a} and {b}'' @ ''.''
        \<and> ''{a} and {b}'' = ''{'' @ ''a} and {b'' @ ''}''
        \<and> CHR ''{'' \<notin> set ''Sure: '' \<and> CHR ''}'' \<notin> set ''.''"
    by simp
  then have m: "jsonMatch ''Sure: {a} and {b}.'' = Some ''{a} and {b}''"
    using yes by blast
  have s1: "answers (Some ''Sure: {a} and {b}.'') ''48.8584'' ''2.2945''
              = Resolves (Some ''Sure: {a} and {b}.'')"
    by (simp add: answers_def)
  have b1: "analyzeBody sampleParse (answers (Some ''Sure: {a} and {b}.'')) ''48.8584'' ''2.2945''
              = Inr sampleContext"
    using yes m s1 by (simp add: sampleParse_def)
  have k: "''key'' \<noteq> []" by simp
  have l1: "analyzeLocation sampleParse (answers (Some ''Sure: {a} and {b}.'')) ''48.8584''
              ''2.2945'' ''key'' = Inr sampleContext"
    using yes k m s1 by (simp add: sampleParse_def)
  have d: "sampleContext \<noteq> fallbackContext"
  proof
    assume "sampleContext = fallbackContext"
    then have "name sampleContext = name fallbackContext" by simp
    then show False by (simp add: sampleContext_def fallbackContext_def)
  qed
  have s2: "answers (Some ''I cannot help.'') ''48.8584'' ''2.2945''
              = Resolves (Some ''I cannot help.'')"
    by (simp add: answers_def)
  have n: "jsonMatch ''I cannot help.'' = None" by simp
  have b2: "analyzeBody sampleParse (answers (Some ''I cannot help.'')) ''48.8584'' ''2.2945''
              = Inl (Error ''Failed to parse location JSON'')
            \<and> analyzeLocation sampleParse (answers (Some ''I cannot help.'')) ''48.8584''
                 ''2.2945'' ''key'' = Inr fallbackContext"
    using no s2 n by simp
  show ?thesis using m s1 b1 l1 d s2 n b2 by simp
qed

text \<open>
  Claim C5. With a non-empty credential, the resolver returns the fallback record
  whenever the call to the service fails, the response has no text or an empty text,
  the text holds no JSON object, or the parser rejects the object. The fallback record
  is named "Unknown Location", has the placeholder weather "--" / "Unknown", is not
  vague and has no nearby points of interest.
\<close>

theorem resolver_falls_back:
  "key \<noteq> [] \<and>
   ((\<exists>e. svc la lo = Rejects e)
    \<or> svc la lo = Resolves None
    \<or> svc la lo = Resolves (Some [])
    \<or> (\<exists>t. svc la lo = Resolves (Some t)
           \<and> (jsonMatch t = None \<or> (\<exists>m e. jsonMatch t = Some m \<and> parse m = Inl e))))
   \<longrightarrow> analyzeLocation parse svc la lo key = Inr fallbackContext
       \<and> name fallbackContext = ''Unknown Location''
       \<and> temp (weather fallbackContext) = ''--''
       \<and> condition (weather fallbackContext) = ''Unknown''
       \<and> isVague fallbackContext = Some False
       \<and> nearbyPOIs fallbackContext = None"
proof (intro impI, elim conjE)
  assume k: "key \<noteq> []"
  assume f: "(\<exists>e. svc la lo = Rejects e)
    \<or> svc la lo = Resolves None
    \<or> svc la lo = Resolves (Some [])
    \<or> (\<exists>t. svc la lo = Resolves (Some t)
           \<and> (jsonMatch t = None \<or> (\<exists>m e. jsonMatch t = Some m \<and> parse m = Inl e)))"
  have "\<exists>e. analyzeBody parse svc la lo = Inl e"
    using f by (auto simp: analyzeBody_def)
  then have "analyzeLocation parse svc la lo key = Inr fallbackContext"
    using k by (auto simp: analyzeLocation_def)
  then show "analyzeLocation parse svc la lo key = Inr fallbackContext
       \<and> name fallbackContext = ''Unknown Location''
       \<and> temp (weather fallbackContext) = ''--''
       \<and> condition (weather fallbackContext) = ''Unknown''
       \<and> isVague fallbackContext = Some False
       \<and> nearbyPOIs fallbackContext = None"
    by (simp add: fallbackContext_def)
qed

theorem resolver_falls_back_witness:
  "''key'' \<noteq> [] \<and> unreachable ''48.8584'' ''2.2945'' = Rejects (Error ''Failed to fetch'')
   \<and> analyzeLocation sampleParse unreachable ''48.8584'' ''2.2945'' ''key'' = Inr fallbackContext
   \<and> answers (Some ''{oops}'') ''48.8584'' ''2.2945'' = Resolves (Some ''{oops}'')
   \<and> jsonMatch ''{oops}'' = Some ''{oops}''
   \<and> sampleParse ''{oops}'' = Inl (Error ''SyntaxError'')
   \<and> analyzeLocation sampleParse (answers (Some ''{oops}'')) ''48.8584'' ''2.2945'' ''key''
        = Inr fallbackContext"
proof -
  have u: "unreachable ''48.8584'' ''2.2945'' = Rejects (Error ''Failed to fetch'')"
    by (simp add: unreachable_def)
  have a: "answers (Some ''{oops}'') ''48.8584'' ''2.2945'' = Resolves (Some ''{oops}'')"
    by (simp add: answers_def)
  have j: "jsonMatch ''{oops}'' = Some ''{oops}''" by simp
  have p: "sampleParse ''{oops}'' = Inl (Error ''SyntaxError'')" by (simp add: sampleParse_def)
  have k: "''key'' \<noteq> []" by simp
  have "analyzeLocation sampleParse unreachable ''48.8584'' ''2.2945'' ''key'' = Inr fallbackContext"
    using resolver_falls_back[of "''key''" unreachable "''48.8584''" "''2.2945''" sampleParse] u k
    by blast
  moreover have "analyzeLocation sampleParse (answers (Some ''{oops}'')) ''48.8584'' ''2.2945'' ''key''
        = Inr fallbackContext"
    using resolver_falls_back[of "''key''" "answers (Some ''{oops}'')" "''48.8584''" "''2.2945''"
        sampleParse] a j p k
    by blast
  ultimately show ?thesis using u a j p k by blast
qed

text \<open>
  Claim C10. With an empty credential the resolver throws "API Key is required" and
  does not return the fallback record; and that is the only error the resolver ever
  throws: any error it throws is this one, for an empty credential.
\<close>

theorem resolver_requires_key:
  "analyzeLocation parse svc la lo [] = Inl (Error ''API Key is required'')
   \<and> analyzeLocation parse svc la lo [] \<noteq> Inr fallbackContext
   \<and> (\<forall>e. analyzeLocation parse svc la lo key = Inl e
          \<longrightarrow> key = [] \<and> e = Error ''API Key is required'')"
  by (auto simp: analyzeLocation_def split: sum.splits if_splits)

theorem resolver_requires_key_witness:
  "analyzeLocation sampleParse unreachable ''48.8584'' ''2.2945'' [] = Inl (Error ''API Key is required'')
   \<and> analyzeLocation sampleParse unreachable ''48.8584'' ''2.2945'' [] \<noteq> Inr fallbackContext
   \<and> ([] :: string) = [] \<and> Error ''API Key is required'' = Error ''API Key is required''"
  using resolver_requires_key[of sampleParse unreachable "''48.8584''" "''2.2945''" "[]"]
  by blast

section \<open>The text of every request\<close>

lemma makeRequest_requests:
  "ev \<in> set (snd (makeRequest svc t i k)) \<Longrightarrow> isRequest ev \<Longrightarrow> ev = Request t i"
proof (induction "3 - k" arbitrary: k)
  case 0
  then have "2 < k" by simp
  then have "snd (makeRequest svc t i k) = [Request t i]"
    by (cases rule: makeRequest_cases[of svc t i k]) auto
  then show ?case using 0 by simp
next
  case (Suc n)
  show ?case
  proof (cases rule: makeRequest_cases[of svc t i k])
    case stop
    then show ?thesis using Suc.prems by simp
  next
    case (retry e d)
    then have "ev = Request t i \<or> ev = Wait d \<or> ev \<in> set (snd (makeRequest svc t i (k + 1)))"
      using Suc.prems(1) by auto
    then show ?thesis
      using Suc.prems(2) Suc.hyps(1)[of "k + 1"] Suc.hyps(2) by auto
  qed
qed

lemma generateTravelPhoto_events:
  "snd (generateTravelPhoto svc key la lo loc era img w year cp style var)
     = (if key = [] then []
        else snd (makeRequest svc
                   (textPrompt la lo loc era w year cp (orDefault style ''Realistic'')
                      (orDefault var ''Standard Shot'')) img 0))"
  by (simp add: generateTravelPhoto_def split: prod.splits sum.splits option.splits)

lemma generateTravelPhoto_requests:
  "Request t i \<in> set (snd (generateTravelPhoto svc key la lo loc era img w year cp style var))
     \<Longrightarrow> t = textPrompt la lo loc era w year cp (orDefault style ''Realistic'')
                (orDefault var ''Standard Shot'')"
  using makeRequest_requests[of "Request t i" svc _ img 0]
  by (auto simp: generateTravelPhoto_events split: if_splits)

lemma requestTexts_all:
  "(\<And>ev. ev \<in> set evs \<Longrightarrow> isRequest ev \<Longrightarrow> ev = Request t i)
     \<Longrightarrow> requestTexts evs = replicate (attempts evs) t"
proof (induction evs)
  case Nil
  show ?case by (simp add: requestTexts_def attempts_def List.map_filter_simps)
next
  case (Cons ev evs)
  have ih: "requestTexts evs = replicate (attempts evs) t"
    using Cons by simp
  show ?case
  proof (cases ev)
    case (Request t' i')
    then have "ev = Request t i" using Cons.prems[of ev] by simp
    then show ?thesis using ih
      by (simp add: requestTexts_def attempts_def List.map_filter_simps)
  next
    case (Wait d)
    then show ?thesis using ih
      by (simp add: requestTexts_def attempts_def List.map_filter_simps)
  qed
qed

text \<open>
  Claim C9. The text sent to the image service is a function of the location name, the
  coordinates, the era, the year string, the custom prompt, the style, the weather
  condition and the variation label alone: every request of an invocation, retries
  included, carries the text composed from them, so two invocations with these
  arguments equal send the same text whatever the credential, the reference image and
  the behaviour of the service.
\<close>

theorem prompt_deterministic:
  "(\<forall>t1 i1 t2 i2.
       Request t1 i1 \<in> set (snd (generateTravelPhoto svc1 key1 la lo loc era img1 w year cp style var))
     \<and> Request t2 i2 \<in> set (snd (generateTravelPhoto svc2 key2 la lo loc era img2 w year cp style var))
     \<longrightarrow> t1 = t2)
   \<and> requestTexts (snd (generateTravelPhoto svc1 key1 la lo loc era img1 w year cp style var))
       = replicate (attempts (snd (generateTravelPhoto svc1 key1 la lo loc era img1 w year cp style var)))
           (textPrompt la lo loc era w year cp (orDefault style ''Realistic'')
              (orDefault var ''Standard Shot''))"
proof (intro conjI allI impI)
  fix t1 i1 t2 i2
  assume "Request t1 i1 \<in> set (snd (generateTravelPhoto svc1 key1 la lo loc era img1 w year cp style var))
     \<and> Request t2 i2 \<in> set (snd (generateTravelPhoto svc2 key2 la lo loc era img2 w year cp style var))"
  then show "t1 = t2"
    using generateTravelPhoto_requests[of t1 i1 svc1 key1 la lo loc era img1 w year cp style var]
      generateTravelPhoto_requests[of t2 i2 svc2 key2 la lo loc era img2 w year cp style var]
    by simp
next
  show "requestTexts (snd (generateTravelPhoto svc1 key1 la lo loc era img1 w year cp style var))
       = replicate (attempts (snd (generateTravelPhoto svc1 key1 la lo loc era img1 w year cp style var)))
           (textPrompt la lo loc era w year cp (orDefault style ''Realistic'')
              (orDefault var ''Standard Shot''))"
  proof (cases "key1 = []")
    case True
    then show ?thesis
      by (simp add: generateTravelPhoto_events requestTexts_def attempts_def List.map_filter_simps)
  next
    case False
    then show ?thesis
      using requestTexts_all[of "snd (makeRequest svc1
                   (textPrompt la lo loc era w year cp (orDefault style ''Realistic'')
                      (orDefault var ''Standard Shot'')) img1 0)"
                   "textPrompt la lo loc era w year cp (orDefault style ''Realistic'')
                      (orDefault var ''Standard Shot'')" img1]
        makeRequest_requests[of _ svc1 _ img1 0]
      by (simp add: generateTravelPhoto_events)
  qed
qed

lemma limited_run_events:
  "snd (generateTravelPhoto (onceLimited error429) ''key-1'' ''48.8584'' ''2.2945''
          ''Eiffel Tower'' PAST (Some ''AAAA'') ''Sunny'' (Some ''1889'') None
          (Some ''Cinematic'') (Some ''Wide Angle Shot (Establishing Context)''))
   = [Request (textPrompt ''48.8584'' ''2.2945'' ''Eiffel Tower'' PAST ''Sunny'' (Some ''1889'')
                None ''Cinematic'' ''Wide Angle Shot (Establishing Context)'') (Some ''AAAA''),
      Wait 3000,
      Request (textPrompt ''48.8584'' ''2.2945'' ''Eiffel Tower'' PAST ''Sunny'' (Some ''1889'')
                None ''Cinematic'' ''Wide Angle Shot (Establishing Context)'') (Some ''AAAA'')]"
  by (simp add: generateTravelPhoto_events makeRequest.simps onceLimited_def error429_def
      isRateLimit_def retryDelay_def errorRetryMatch_def orDefault_def)

lemma image_run_events:
  "snd (generateTravelPhoto (alwaysImage ''w'') ''key-2'' ''48.8584'' ''2.2945''
          ''Eiffel Tower'' PAST (Some ''BBBB'') ''Sunny'' (Some ''1889'') None
          (Some ''Cinematic'') (Some ''Wide Angle Shot (Establishing Context)''))
   = [Request (textPrompt ''48.8584'' ''2.2945'' ''Eiffel Tower'' PAST ''Sunny'' (Some ''1889'')
                None ''Cinematic'' ''Wide Angle Shot (Establishing Context)'') (Some ''BBBB'')]"
  by (simp add: generateTravelPhoto_events makeRequest.simps alwaysImage_def orDefault_def)

theorem prompt_deterministic_witness:
  "Request (textPrompt ''48.8584'' ''2.2945'' ''Eiffel Tower'' PAST ''Sunny'' (Some ''1889'')
              None ''Cinematic'' ''Wide Angle Shot (Establishing Context)'') (Some ''AAAA'')
     \<in> set (snd (generateTravelPhoto (onceLimited error429) ''key-1'' ''48.8584'' ''2.2945''
          ''Eiffel Tower'' PAST (Some ''AAAA'') ''Sunny'' (Some ''1889'') None
          (Some ''Cinematic'') (Some ''Wide Angle Shot (Establishing Context)'')))
   \<and> Request (textPrompt ''48.8584'' ''2.2945'' ''Eiffel Tower'' PAST ''Sunny'' (Some ''1889'')
              None ''Cinematic'' ''Wide Angle Shot (Establishing Context)'') (Some ''BBBB'')
     \<in> set (snd (generateTravelPhoto (alwaysImage ''w'') ''key-2'' ''48.8584'' ''2.2945''
          ''Eiffel Tower'' PAST (Some ''BBBB'') ''Sunny'' (Some ''1889'') None
          (Some ''Cinematic'') (Some ''Wide Angle Shot (Establishing Context)'')))
   \<and> requestTexts (snd (generateTravelPhoto (onceLimited error429) ''key-1'' ''48.8584''
          ''2.2945'' ''Eiffel Tower'' PAST (Some ''AAAA'') ''Sunny'' (Some ''1889'') None
          (Some ''Cinematic'') (Some ''Wide Angle Shot (Establishing Context)'')))
      = [textPrompt ''48.8584'' ''2.2945'' ''Eiffel Tower'' PAST ''Sunny'' (Some ''1889'')
              None ''Cinematic'' ''Wide Angle Shot (Establishing Context)'',
         textPrompt ''48.8584'' ''2.2945'' ''Eiffel Tower'' PAST ''Sunny'' (Some ''1889'')
              None ''Cinematic'' ''Wide Angle Shot (Establishing Context)'']"
proof -
  note th = prompt_deterministic[of "onceLimited error429" "''key-1''" "''48.8584''" "''2.2945''"
      "''Eiffel Tower''" PAST "Some ''AAAA''" "''Sunny''" "Some ''1889''" None
      "Some ''Cinematic''" "Some ''Wide Angle Shot (Establishing Context)''"
      "alwaysImage ''w''" "''key-2''" "Some ''BBBB''"]
  have n: "attempts (snd (generateTravelPhoto (onceLimited error429) ''key-1'' ''48.8584''
          ''2.2945'' ''Eiffel Tower'' PAST (Some ''AAAA'') ''Sunny'' (Some ''1889'') None
          (Some ''Cinematic'') (Some ''Wide Angle Shot (Establishing Context)''))) = Suc (Suc 0)"
    by (simp add: limited_run_events attempts_def)
  have "requestTexts (snd (generateTravelPhoto (onceLimited error429) ''key-1'' ''48.8584''
          ''2.2945'' ''Eiffel Tower'' PAST (Some ''AAAA'') ''Sunny'' (Some ''1889'') None
          (Some ''Cinematic'') (Some ''Wide Angle Shot (Establishing Context)'')))
      = [textPrompt ''48.8584'' ''2.2945'' ''Eiffel Tower'' PAST ''Sunny'' (Some ''1889'')
              None ''Cinematic'' ''Wide Angle Shot (Establishing Context)'',
         textPrompt ''48.8584'' ''2.2945'' ''Eiffel Tower'' PAST ''Sunny'' (Some ''1889'')
              None ''Cinematic'' ''Wide Angle Shot (Establishing Context)'']"
    using th n by (simp add: orDefault_def)
  then show ?thesis by (simp add: limited_run_events image_run_events)
qed

section \<open>The generation run\<close>

lemma handleError_frame:
  "\<exists>msg. handleError e d s
     = (if isInvalidKeyMessage (errorText e) \<and> \<not> isQuotaMessage (errorText e)
        then clearApiKey (s\<lparr> status := error, errorMessage := Some msg \<rparr>)
        else s\<lparr> status := error, errorMessage := Some msg \<rparr>)"
  by (auto simp: handleError_def Let_def)

text \<open>
  Claim C6. With a location, its context and a readable reference photo, a run whose two
  calls succeed makes exactly two calls, labelled "Wide Angle Shot (Establishing
  Context)" and then "Medium Shot (Character Interaction)", and ends with status
  complete and exactly the two images, in call order.
\<close>

theorem two_shots_complete:
  "selectedLocation st = Some loc \<and> locationInfo st = Some info
   \<and> blobToBase64 file = Inr img
   \<and> generateTravelPhoto (svcs ''Wide Angle Shot (Establishing Context)'') (apiKey st)
        (lat loc) (lng loc) (name info) era img (condition (weather info)) year cp
        (Some (styleString (case style of None \<Rightarrow> Realistic | Some s \<Rightarrow> s)))
        (Some ''Wide Angle Shot (Establishing Context)'') = (Inr url1, evs1)
   \<and> generateTravelPhoto (svcs ''Medium Shot (Character Interaction)'') (apiKey st)
        (lat loc) (lng loc) (name info) era img (condition (weather info)) year cp
        (Some (styleString (case style of None \<Rightarrow> Realistic | Some s \<Rightarrow> s)))
        (Some ''Medium Shot (Character Interaction)'') = (Inr url2, evs2)
   \<longrightarrow> handleGenerate svcs file era year cp style st
         = (st\<lparr> status := complete, errorMessage := None, generatedImages := [url1, url2] \<rparr>,
            [(''Wide Angle Shot (Establishing Context)'', evs1),
             (''Medium Shot (Character Interaction)'', evs2)])
       \<and> map fst (snd (handleGenerate svcs file era year cp style st))
           = [''Wide Angle Shot (Establishing Context)'', ''Medium Shot (Character Interaction)'']
       \<and> status (fst (handleGenerate svcs file era year cp style st)) = complete
       \<and> generatedImages (fst (handleGenerate svcs file era year cp style st)) = [url1, url2]
       \<and> length (generatedImages (fst (handleGenerate svcs file era year cp style st))) = 2"
  by (simp add: handleGenerate_def variations_def)

lemma sample_photo: "blobToBase64 (Inr ''data:image/jpeg;base64,QUJD'') = Inr (Some ''QUJD'')"
  by (simp add: blobToBase64_def secondField_def)

lemma alwaysImage_run:
  "key \<noteq> [] \<Longrightarrow>
   generateTravelPhoto (alwaysImage v) key la lo loc era img w year cp (Some sty) (Some var)
     = (Inr (''data:image/png;base64,'' @ v),
        [Request (textPrompt la lo loc era w year cp sty var) img])"
  by (simp add: generateTravelPhoto_def makeRequest.simps alwaysImage_def orDefault_def)

theorem two_shots_complete_witness:
  "selectedLocation sampleState = Some \<lparr> lat = ''48.8584'', lng = ''2.2945'' \<rparr>
   \<and> locationInfo sampleState = Some sampleContext
   \<and> blobToBase64 (Inr ''data:image/jpeg;base64,QUJD'') = Inr (Some ''QUJD'')
   \<and> map fst (snd (handleGenerate alwaysImage (Inr ''data:image/jpeg;base64,QUJD'') PAST
                      (Some ''1889'') None (Some Cinematic) sampleState))
        = [''Wide Angle Shot (Establishing Context)'', ''Medium Shot (Character Interaction)'']
   \<and> status (fst (handleGenerate alwaysImage (Inr ''data:image/jpeg;base64,QUJD'') PAST
                      (Some ''1889'') None (Some Cinematic) sampleState)) = complete
   \<and> generatedImages (fst (handleGenerate alwaysImage (Inr ''data:image/jpeg;base64,QUJD'') PAST
                      (Some ''1889'') None (Some Cinematic) sampleState))
        = [''data:image/png;base64,Wide Angle Shot (Establishing Context)'',
           ''data:image/png;base64,Medium Shot (Character Interaction)'']"
proof -
  have l: "selectedLocation sampleState = Some \<lparr> lat = ''48.8584'', lng = ''2.2945'' \<rparr>
           \<and> locationInfo sampleState = Some sampleContext"
    by (simp add: sampleState_def)
  have k: "apiKey sampleState \<noteq> []" by (simp add: sampleState_def)
  note g1 = alwaysImage_run[OF k, of "''Wide Angle Shot (Establishing Context)''"
      "''48.8584''" "''2.2945''" "name sampleContext" PAST "Some ''QUJD''"
      "condition (weather sampleContext)" "Some ''1889''" None "styleString Cinematic"
      "''Wide Angle Shot (Establishing Context)''"]
  note g2 = alwaysImage_run[OF k, of "''Medium Shot (Character Interaction)''"
      "''48.8584''" "''2.2945''" "name sampleContext" PAST "Some ''QUJD''"
      "condition (weather sampleContext)" "Some ''1889''" None "styleString Cinematic"
      "''Medium Shot (Character Interaction)''"]
  note th = two_shots_complete[of sampleState "\<lparr> lat = ''48.8584'', lng = ''2.2945'' \<rparr>"
      sampleContext "Inr ''data:image/jpeg;base64,QUJD''" "Some ''QUJD''" alwaysImage PAST
      "Some ''1889''" None "Some Cinematic"
      "''data:image/png;base64,'' @ ''Wide Angle Shot (Establishing Context)''" _
      "''data:image/png;base64,'' @ ''Medium Shot (Character Interaction)''" _]
  show ?thesis
    using th l sample_photo g1 g2 by simp
qed

text \<open>
  Claim C7, as the code has it. When a call of the run fails, the run ends with status
  error and an error message, and the images of the earlier calls of the run are kept;
  no later call is made. Nothing else of the state changes, unless the error text marks
  an invalid credential ("400", "expired", "API_KEY_INVALID" or "not found", with no
  quota marker): then the credential is cleared as well (the key, its ready flag and the
  stored key; the key selector is opened where there is one).
\<close>

theorem generation_failure_frame:
  "selectedLocation st = Some loc \<and> locationInfo st = Some info
   \<and> blobToBase64 file = Inr img
   \<and> ((generateTravelPhoto (svcs ''Wide Angle Shot (Establishing Context)'') (apiKey st)
          (lat loc) (lng loc) (name info) era img (condition (weather info)) year cp
          (Some (styleString (case style of None \<Rightarrow> Realistic | Some s \<Rightarrow> s)))
          (Some ''Wide Angle Shot (Establishing Context)'') = (Inl e, evs1)
        \<and> prior = [] \<and> calls = [(''Wide Angle Shot (Establishing Context)'', evs1)])
       \<or> (generateTravelPhoto (svcs ''Wide Angle Shot (Establishing Context)'') (apiKey st)
            (lat loc) (lng loc) (name info) era img (condition (weather info)) year cp
            (Some (styleString (case style of None \<Rightarrow> Realistic | Some s \<Rightarrow> s)))
            (Some ''Wide Angle Shot (Establishing Context)'') = (Inr url1, evs1)
          \<and> generateTravelPhoto (svcs ''Medium Shot (Character Interaction)'') (apiKey st)
            (lat loc) (lng loc) (name info) era img (condition (weather info)) year cp
            (Some (styleString (case style of None \<Rightarrow> Realistic | Some s \<Rightarrow> s)))
            (Some ''Medium Shot (Character Interaction)'') = (Inl e, evs2)
          \<and> prior = [url1]
          \<and> calls = [(''Wide Angle Shot (Establishing Context)'', evs1),
                      (''Medium Shot (Character Interaction)'', evs2)]))
   \<longrightarrow> (\<exists>msg. handleGenerate svcs file era year cp style st
          = ((if isInvalidKeyMessage (errorText e) \<and> \<not> isQuotaMessage (errorText e)
              then clearApiKey (st\<lparr> generatedImages := prior, status := error,
                                     errorMessage := Some msg \<rparr>)
              else st\<lparr> generatedImages := prior, status := error, errorMessage := Some msg \<rparr>),
             calls))"
proof (intro impI, elim conjE)
  assume l: "selectedLocation st = Some loc" "locationInfo st = Some info"
    and f: "blobToBase64 file = Inr img"
  let ?s = "st\<lparr> status := generating_image, errorMessage := None, generatedImages := prior \<rparr>"
  assume d: "(generateTravelPhoto (svcs ''Wide Angle Shot (Establishing Context)'') (apiKey st)
          (lat loc) (lng loc) (name info) era img (condition (weather info)) year cp
          (Some (styleString (case style of None \<Rightarrow> Realistic | Some s \<Rightarrow> s)))
          (Some ''Wide Angle Shot (Establishing Context)'') = (Inl e, evs1)
        \<and> prior = [] \<and> calls = [(''Wide Angle Shot (Establishing Context)'', evs1)])
       \<or> (generateTravelPhoto (svcs ''Wide Angle Shot (Establishing Context)'') (apiKey st)
            (lat loc) (lng loc) (name info) era img (condition (weather info)) year cp
            (Some (styleString (case style of None \<Rightarrow> Realistic | Some s \<Rightarrow> s)))
            (Some ''Wide Angle Shot (Establishing Context)'') = (Inr url1, evs1)
          \<and> generateTravelPhoto (svcs ''Medium Shot (Character Interaction)'') (apiKey st)
            (lat loc) (lng loc) (name info) era img (condition (weather info)) year cp
            (Some (styleString (case style of None \<Rightarrow> Realistic | Some s \<Rightarrow> s)))
            (Some ''Medium Shot (Character Interaction)'') = (Inl e, evs2)
          \<and> prior = [url1]
          \<and> calls = [(''Wide Angle Shot (Establishing Context)'', evs1),
                      (''Medium Shot (Character Interaction)'', evs2)])"
  have run: "handleGenerate svcs file era year cp style st
               = (handleError e ''Image generation failed'' ?s, calls)"
    using l f d by (auto simp: handleGenerate_def variations_def)
  obtain msg where "handleError e ''Image generation failed'' ?s
     = (if isInvalidKeyMessage (errorText e) \<and> \<not> isQuotaMessage (errorText e)
        then clearApiKey (?s\<lparr> status := error, errorMessage := Some msg \<rparr>)
        else ?s\<lparr> status := error, errorMessage := Some msg \<rparr>)"
    using handleError_frame by blast
  then have "handleGenerate svcs file era year cp style st
          = ((if isInvalidKeyMessage (errorText e) \<and> \<not> isQuotaMessage (errorText e)
              then clearApiKey (st\<lparr> generatedImages := prior, status := error,
                                     errorMessage := Some msg \<rparr>)
              else st\<lparr> generatedImages := prior, status := error, errorMessage := Some msg \<rparr>),
             calls)"
    using run by simp
  then show "\<exists>msg. handleGenerate svcs file era year cp style st
          = ((if isInvalidKeyMessage (errorText e) \<and> \<not> isQuotaMessage (errorText e)
              then clearApiKey (st\<lparr> generatedImages := prior, status := error,
                                     errorMessage := Some msg \<rparr>)
              else st\<lparr> generatedImages := prior, status := error, errorMessage := Some msg \<rparr>),
             calls)"
    by blast
qed

lemma key_rejected_run:
  "handleGenerate keyRejectedOnSecond (Inr ''data:image/jpeg;base64,QUJD'') PAST (Some ''1889'')
      None (Some Cinematic) sampleState
   = (sampleState\<lparr> generatedImages := [''data:image/png;base64,AAAA''], status := error,
                    errorMessage := Some ''Invalid API Key. Please update your key.'',
                    apiKey := [], apiKeyReady := False, storedKey := None \<rparr>,
      [(''Wide Angle Shot (Establishing Context)'',
        [Request (textPrompt ''48.8584'' ''2.2945'' ''Eiffel Tower'' PAST ''Cloudy'' (Some ''1889'')
                    None ''Cinematic'' ''Wide Angle Shot (Establishing Context)'') (Some ''QUJD'')]),
       (''Medium Shot (Character Interaction)'',
        [Request (textPrompt ''48.8584'' ''2.2945'' ''Eiffel Tower'' PAST ''Cloudy'' (Some ''1889'')
                    None ''Cinematic'' ''Medium Shot (Character Interaction)'') (Some ''QUJD'')])])"
  by (simp add: handleGenerate_def sampleState_def sample_photo variations_def
      generateTravelPhoto_def makeRequest.simps keyRejectedOnSecond_def isRateLimit_def
      Error_def handleError_def errorText_def isQuotaMessage_def isInvalidKeyMessage_def
      clearApiKey_def orDefault_def sampleContext_def)

theorem generation_failure_clears_key:
  "status (fst (handleGenerate keyRejectedOnSecond (Inr ''data:image/jpeg;base64,QUJD'') PAST
                  (Some ''1889'') None (Some Cinematic) sampleState)) = error
   \<and> generatedImages (fst (handleGenerate keyRejectedOnSecond
         (Inr ''data:image/jpeg;base64,QUJD'') PAST (Some ''1889'') None (Some Cinematic)
         sampleState)) = [''data:image/png;base64,AAAA'']
   \<and> apiKey sampleState = ''key-1''
   \<and> apiKey (fst (handleGenerate keyRejectedOnSecond (Inr ''data:image/jpeg;base64,QUJD'') PAST
                  (Some ''1889'') None (Some Cinematic) sampleState)) = []
   \<and> apiKeyReady sampleState
   \<and> \<not> apiKeyReady (fst (handleGenerate keyRejectedOnSecond
         (Inr ''data:image/jpeg;base64,QUJD'') PAST (Some ''1889'') None (Some Cinematic)
         sampleState))
   \<and> storedKey sampleState = Some ''key-1''
   \<and> storedKey (fst (handleGenerate keyRejectedOnSecond (Inr ''data:image/jpeg;base64,QUJD'')
         PAST (Some ''1889'') None (Some Cinematic) sampleState)) = None"
  by (simp add: key_rejected_run) (simp add: sampleState_def)

lemma no_image_call:
  "key \<noteq> [] \<Longrightarrow>
   generateTravelPhoto (noImage v) key la lo loc era img w year cp (Some sty) (Some var)
     = (Inl (Error ''No image generated''),
        [Request (textPrompt la lo loc era w year cp sty var) img])"
  by (simp add: generateTravelPhoto_def makeRequest.simps noImage_def orDefault_def)

lemma no_image_text:
  "\<not> isInvalidKeyMessage (errorText (Error ''No image generated''))"
  by (simp add: errorText_def Error_def isInvalidKeyMessage_def)

theorem generation_failure_frame_witness:
  "selectedLocation sampleState = Some \<lparr> lat = ''48.8584'', lng = ''2.2945'' \<rparr>
   \<and> locationInfo sampleState = Some sampleContext
   \<and> blobToBase64 (Inr ''data:image/jpeg;base64,QUJD'') = Inr (Some ''QUJD'')
   \<and> generateTravelPhoto (noImage ''Wide Angle Shot (Establishing Context)'')
        (apiKey sampleState) ''48.8584'' ''2.2945'' (name sampleContext) PAST (Some ''QUJD'')
        (condition (weather sampleContext)) (Some ''1889'') None (Some ''Cinematic'')
        (Some ''Wide Angle Shot (Establishing Context)'')
      = (Inl (Error ''No image generated''),
         [Request (textPrompt ''48.8584'' ''2.2945'' (name sampleContext) PAST
                    (condition (weather sampleContext)) (Some ''1889'') None ''Cinematic''
                    ''Wide Angle Shot (Establishing Context)'') (Some ''QUJD'')])
   \<and> (\<exists>msg. fst (handleGenerate noImage (Inr ''data:image/jpeg;base64,QUJD'') PAST (Some ''1889'')
                   None (Some Cinematic) sampleState)
          = sampleState\<lparr> generatedImages := [], status := error, errorMessage := Some msg \<rparr>)
   \<and> map fst (snd (handleGenerate noImage (Inr ''data:image/jpeg;base64,QUJD'') PAST
                      (Some ''1889'') None (Some Cinematic) sampleState))
        = [''Wide Angle Shot (Establishing Context)'']
   \<and> generateTravelPhoto (keyRejectedOnSecond ''Wide Angle Shot (Establishing Context)'')
        (apiKey sampleState) ''48.8584'' ''2.2945'' (name sampleContext) PAST (Some ''QUJD'')
        (condition (weather sampleContext)) (Some ''1889'') None (Some ''Cinematic'')
        (Some ''Wide Angle Shot (Establishing Context)'')
      = (Inr ''data:image/png;base64,AAAA'',
         [Request (textPrompt ''48.8584'' ''2.2945'' (name sampleContext) PAST
                    (condition (weather sampleContext)) (Some ''1889'') None ''Cinematic''
                    ''Wide Angle Shot (Establishing Context)'') (Some ''QUJD'')])
   \<and> generateTravelPhoto (keyRejectedOnSecond ''Medium Shot (Character Interaction)'')
        (apiKey sampleState) ''48.8584'' ''2.2945'' (name sampleContext) PAST (Some ''QUJD'')
        (condition (weather sampleContext)) (Some ''1889'') None (Some ''Cinematic'')
        (Some ''Medium Shot (Character Interaction)'')
      = (Inl (Error ''API_KEY_INVALID''),
         [Request (textPrompt ''48.8584'' ''2.2945'' (name sampleContext) PAST
                    (condition (weather sampleContext)) (Some ''1889'') None ''Cinematic''
                    ''Medium Shot (Character Interaction)'') (Some ''QUJD'')])
   \<and> (\<exists>msg. fst (handleGenerate keyRejectedOnSecond (Inr ''data:image/jpeg;base64,QUJD'') PAST
                   (Some ''1889'') None (Some Cinematic) sampleState)
          = clearApiKey (sampleState\<lparr> generatedImages := [''data:image/png;base64,AAAA''],
                                        status := error, errorMessage := Some msg \<rparr>))
   \<and> map fst (snd (handleGenerate keyRejectedOnSecond (Inr ''data:image/jpeg;base64,QUJD'')
                      PAST (Some ''1889'') None (Some Cinematic) sampleState))
        = [''Wide Angle Shot (Establishing Context)'', ''Medium Shot (Character Interaction)'']"
proof -
  have l: "selectedLocation sampleState = Some \<lparr> lat = ''48.8584'', lng = ''2.2945'' \<rparr>
           \<and> locationInfo sampleState = Some sampleContext"
    by (simp add: sampleState_def)
  have k: "apiKey sampleState \<noteq> []" by (simp add: sampleState_def)
  note g = no_image_call[OF k, of "''Wide Angle Shot (Establishing Context)''"
      "''48.8584''" "''2.2945''" "name sampleContext" PAST "Some ''QUJD''"
      "condition (weather sampleContext)" "Some ''1889''" None "''Cinematic''"
      "''Wide Angle Shot (Establishing Context)''"]
  note th = generation_failure_frame[of sampleState "\<lparr> lat = ''48.8584'', lng = ''2.2945'' \<rparr>"
      sampleContext "Inr ''data:image/jpeg;base64,QUJD''" "Some ''QUJD''" noImage PAST
      "Some ''1889''" None "Some Cinematic" "Error ''No image generated''"
      "[Request (textPrompt ''48.8584'' ''2.2945'' (name sampleContext) PAST
                    (condition (weather sampleContext)) (Some ''1889'') None ''Cinematic''
                    ''Wide Angle Shot (Establishing Context)'') (Some ''QUJD'')]"
      "[]"
      "[(''Wide Angle Shot (Establishing Context)'',
         [Request (textPrompt ''48.8584'' ''2.2945'' (name sampleContext) PAST
                    (condition (weather sampleContext)) (Some ''1889'') None ''Cinematic''
                    ''Wide Angle Shot (Establishing Context)'') (Some ''QUJD'')])]"]
  have "\<exists>msg. handleGenerate noImage (Inr ''data:image/jpeg;base64,QUJD'') PAST (Some ''1889'')
                   None (Some Cinematic) sampleState
          = (sampleState\<lparr> generatedImages := [], status := error, errorMessage := Some msg \<rparr>,
             [(''Wide Angle Shot (Establishing Context)'',
               [Request (textPrompt ''48.8584'' ''2.2945'' (name sampleContext) PAST
                    (condition (weather sampleContext)) (Some ''1889'') None ''Cinematic''
                    ''Wide Angle Shot (Establishing Context)'') (Some ''QUJD'')])])"
    using th l sample_photo g no_image_text by simp
  then obtain msg where r: "handleGenerate noImage (Inr ''data:image/jpeg;base64,QUJD'') PAST
                   (Some ''1889'') None (Some Cinematic) sampleState
          = (sampleState\<lparr> generatedImages := [], status := error, errorMessage := Some msg \<rparr>,
             [(''Wide Angle Shot (Establishing Context)'',
               [Request (textPrompt ''48.8584'' ''2.2945'' (name sampleContext) PAST
                    (condition (weather sampleContext)) (Some ''1889'') None ''Cinematic''
                    ''Wide Angle Shot (Establishing Context)'') (Some ''QUJD'')])])"
    by blast
  have "\<exists>msg. fst (handleGenerate noImage (Inr ''data:image/jpeg;base64,QUJD'') PAST (Some ''1889'')
                   None (Some Cinematic) sampleState)
          = sampleState\<lparr> generatedImages := [], status := error, errorMessage := Some msg \<rparr>"
    using r by auto
  moreover have "map fst (snd (handleGenerate noImage (Inr ''data:image/jpeg;base64,QUJD'') PAST
                      (Some ''1889'') None (Some Cinematic) sampleState))
        = [''Wide Angle Shot (Establishing Context)'']"
    using r by simp
  moreover have g1: "generateTravelPhoto
        (keyRejectedOnSecond ''Wide Angle Shot (Establishing Context)'')
        (apiKey sampleState) ''48.8584'' ''2.2945'' (name sampleContext) PAST (Some ''QUJD'')
        (condition (weather sampleContext)) (Some ''1889'') None (Some ''Cinematic'')
        (Some ''Wide Angle Shot (Establishing Context)'')
      = (Inr ''data:image/png;base64,AAAA'',
         [Request (textPrompt ''48.8584'' ''2.2945'' (name sampleContext) PAST
                    (condition (weather sampleContext)) (Some ''1889'') None ''Cinematic''
                    ''Wide Angle Shot (Establishing Context)'') (Some ''QUJD'')])"
    using k by (simp add: generateTravelPhoto_def makeRequest.simps keyRejectedOnSecond_def
        orDefault_def)
  moreover have g2: "generateTravelPhoto
        (keyRejectedOnSecond ''Medium Shot (Character Interaction)'')
        (apiKey sampleState) ''48.8584'' ''2.2945'' (name sampleContext) PAST (Some ''QUJD'')
        (condition (weather sampleContext)) (Some ''1889'') None (Some ''Cinematic'')
        (Some ''Medium Shot (Character Interaction)'')
      = (Inl (Error ''API_KEY_INVALID''),
         [Request (textPrompt ''48.8584'' ''2.2945'' (name sampleContext) PAST
                    (condition (weather sampleContext)) (Some ''1889'') None ''Cinematic''
                    ''Medium Shot (Character Interaction)'') (Some ''QUJD'')])"
    using k by (simp add: generateTravelPhoto_def makeRequest.simps keyRejectedOnSecond_def
        orDefault_def isRateLimit_def Error_def)
  moreover have "(\<exists>msg. fst (handleGenerate keyRejectedOnSecond
                   (Inr ''data:image/jpeg;base64,QUJD'') PAST (Some ''1889'') None
                   (Some Cinematic) sampleState)
          = clearApiKey (sampleState\<lparr> generatedImages := [''data:image/png;base64,AAAA''],
                                        status := error, errorMessage := Some msg \<rparr>))
   \<and> map fst (snd (handleGenerate keyRejectedOnSecond (Inr ''data:image/jpeg;base64,QUJD'')
                      PAST (Some ''1889'') None (Some Cinematic) sampleState))
        = [''Wide Angle Shot (Establishing Context)'', ''Medium Shot (Character Interaction)'']"
  proof -
    note th2 = generation_failure_frame[of sampleState
      "\<lparr> lat = ''48.8584'', lng = ''2.2945'' \<rparr>"
      sampleContext "Inr ''data:image/jpeg;base64,QUJD''" "Some ''QUJD''" keyRejectedOnSecond
      PAST "Some ''1889''" None "Some Cinematic" "Error ''API_KEY_INVALID''"
      "[Request (textPrompt ''48.8584'' ''2.2945'' (name sampleContext) PAST
                    (condition (weather sampleContext)) (Some ''1889'') None ''Cinematic''
                    ''Wide Angle Shot (Establishing Context)'') (Some ''QUJD'')]"
      "[''data:image/png;base64,AAAA'']"
      "[(''Wide Angle Shot (Establishing Context)'',
         [Request (textPrompt ''48.8584'' ''2.2945'' (name sampleContext) PAST
                    (condition (weather sampleContext)) (Some ''1889'') None ''Cinematic''
                    ''Wide Angle Shot (Establishing Context)'') (Some ''QUJD'')]),
        (''Medium Shot (Character Interaction)'',
         [Request (textPrompt ''48.8584'' ''2.2945'' (name sampleContext) PAST
                    (condition (weather sampleContext)) (Some ''1889'') None ''Cinematic''
                    ''Medium Shot (Character Interaction)'') (Some ''QUJD'')])]"
      "''data:image/png;base64,AAAA''"
      "[Request (textPrompt ''48.8584'' ''2.2945'' (name sampleContext) PAST
                    (condition (weather sampleContext)) (Some ''1889'') None ''Cinematic''
                    ''Medium Shot (Character Interaction)'') (Some ''QUJD'')]"]
    have inv: "isInvalidKeyMessage (errorText (Error ''API_KEY_INVALID''))
               \<and> \<not> isQuotaMessage (errorText (Error ''API_KEY_INVALID''))"
      by (simp add: errorText_def Error_def isInvalidKeyMessage_def isQuotaMessage_def)
    have "\<exists>msg. handleGenerate keyRejectedOnSecond (Inr ''data:image/jpeg;base64,QUJD'') PAST
                   (Some ''1889'') None (Some Cinematic) sampleState
          = (clearApiKey (sampleState\<lparr> generatedImages := [''data:image/png;base64,AAAA''],
                                         status := error, errorMessage := Some msg \<rparr>),
             [(''Wide Angle Shot (Establishing Context)'',
               [Request (textPrompt ''48.8584'' ''2.2945'' (name sampleContext) PAST
                    (condition (weather sampleContext)) (Some ''1889'') None ''Cinematic''
                    ''Wide Angle Shot (Establishing Context)'') (Some ''QUJD'')]),
              (''Medium Shot (Character Interaction)'',
               [Request (textPrompt ''48.8584'' ''2.2945'' (name sampleContext) PAST
                    (condition (weather sampleContext)) (Some ''1889'') None ''Cinematic''
                    ''Medium Shot (Character Interaction)'') (Some ''QUJD'')])])"
      using th2 l sample_photo g1 g2 inv by simp
    then obtain msg where r2: "handleGenerate keyRejectedOnSecond
                   (Inr ''data:image/jpeg;base64,QUJD'') PAST
                   (Some ''1889'') None (Some Cinematic) sampleState
          = (clearApiKey (sampleState\<lparr> generatedImages := [''data:image/png;base64,AAAA''],
                                         status := error, errorMessage := Some msg \<rparr>),
             [(''Wide Angle Shot (Establishing Context)'',
               [Request (textPrompt ''48.8584'' ''2.2945'' (name sampleContext) PAST
                    (condition (weather sampleContext)) (Some ''1889'') None ''Cinematic''
                    ''Wide Angle Shot (Establishing Context)'') (Some ''QUJD'')]),
              (''Medium Shot (Character Interaction)'',
               [Request (textPrompt ''48.8584'' ''2.2945'' (name sampleContext) PAST
                    (condition (weather sampleContext)) (Some ''1889'') None ''Cinematic''
                    ''Medium Shot (Character Interaction)'') (Some ''QUJD'')])])"
      by blast
    have "\<exists>msg. fst (handleGenerate keyRejectedOnSecond
                   (Inr ''data:image/jpeg;base64,QUJD'') PAST (Some ''1889'') None
                   (Some Cinematic) sampleState)
          = clearApiKey (sampleState\<lparr> generatedImages := [''data:image/png;base64,AAAA''],
                                        status := error, errorMessage := Some msg \<rparr>)"
      using r2 by auto
    then show ?thesis using r2 by simp
  qed
  ultimately show ?thesis using l sample_photo g by simp
qed

section \<open>The sidebar's decision\<close>

text \<open>
  Claim C4, as the code has it. The state is vague exactly when the context says vague,
  the override is off and no image has been generated. In a vague state the list of
  nearby points is shown and the generation controls are not. In any other state the
  list is not shown; the generation controls are shown exactly when no image has been
  generated, so they appear when the vague flag or the override is flipped, and stay
  hidden when the image count is what makes the state not vague. In every state that
  is not vague the location details are shown, and with a non-zero image count the
  panel of generated images is shown.
\<close>

theorem vague_state_policy:
  "(isVagueState (Some info) ov imgs \<longleftrightarrow> isVague info = Some True \<and> \<not> ov \<and> length imgs = 0)
   \<and> \<not> isVagueState None ov imgs
   \<and> (isVagueState (Some info) ov imgs
        \<longrightarrow> showsPoiList (Some c) (Some info) ov imgs
            \<and> \<not> showsGenerationControls (Some c) (Some info) ov imgs)
   \<and> (\<not> isVagueState (Some info) ov imgs
        \<longrightarrow> \<not> showsPoiList (Some c) (Some info) ov imgs
            \<and> showsLocationDetails (Some c) (Some info) ov imgs
            \<and> (showsGenerationControls (Some c) (Some info) ov imgs \<longleftrightarrow> length imgs = 0)
            \<and> (length imgs \<noteq> 0
                 \<longrightarrow> \<not> showsGenerationControls (Some c) (Some info) ov imgs
                     \<and> showsImagesPanel (Some c) stat imgs))"
  by (auto simp: isVagueState_def showsPoiList_def showsLocationDetails_def
      showsGenerationControls_def showsImagesPanel_def)

theorem vague_state_policy_witness:
  "isVagueState (Some vagueContext) False []
   \<and> showsPoiList (Some \<lparr> lat = ''40.0'', lng = ''-30.0'' \<rparr>) (Some vagueContext) False []
   \<and> \<not> showsGenerationControls (Some \<lparr> lat = ''40.0'', lng = ''-30.0'' \<rparr>) (Some vagueContext) False []
   \<and> \<not> isVagueState (Some vagueContext) True []
   \<and> showsGenerationControls (Some \<lparr> lat = ''40.0'', lng = ''-30.0'' \<rparr>) (Some vagueContext) True []
   \<and> \<not> isVagueState (Some sampleContext) False []
   \<and> showsGenerationControls (Some \<lparr> lat = ''40.0'', lng = ''-30.0'' \<rparr>) (Some sampleContext) False []
   \<and> \<not> isVagueState (Some vagueContext) False [''data:image/png;base64,AAAA'']
   \<and> \<not> showsPoiList (Some \<lparr> lat = ''40.0'', lng = ''-30.0'' \<rparr>) (Some vagueContext) False
         [''data:image/png;base64,AAAA'']
   \<and> showsLocationDetails (Some \<lparr> lat = ''40.0'', lng = ''-30.0'' \<rparr>) (Some vagueContext) False
         [''data:image/png;base64,AAAA'']
   \<and> length [''data:image/png;base64,AAAA''] \<noteq> 0
   \<and> showsImagesPanel (Some \<lparr> lat = ''40.0'', lng = ''-30.0'' \<rparr>) complete
         [''data:image/png;base64,AAAA'']"
proof -
  have v: "isVague vagueContext = Some True" by (simp add: vagueContext_def)
  have s: "isVague sampleContext = Some False" by (simp add: sampleContext_def)
  note a = vague_state_policy[of vagueContext False "[]" "\<lparr> lat = ''40.0'', lng = ''-30.0'' \<rparr>"]
  note b = vague_state_policy[of vagueContext True "[]" "\<lparr> lat = ''40.0'', lng = ''-30.0'' \<rparr>"]
  note c = vague_state_policy[of sampleContext False "[]" "\<lparr> lat = ''40.0'', lng = ''-30.0'' \<rparr>"]
  note d = vague_state_policy[of vagueContext False "[''data:image/png;base64,AAAA'']"
      "\<lparr> lat = ''40.0'', lng = ''-30.0'' \<rparr>" complete]
  have "isVagueState (Some vagueContext) False []" using a v by simp
  moreover have "\<not> isVagueState (Some vagueContext) True []" using b by simp
  moreover have "\<not> isVagueState (Some sampleContext) False []" using c s by simp
  moreover have "\<not> isVagueState (Some vagueContext) False [''data:image/png;base64,AAAA'']"
    using d by simp
  ultimately show ?thesis using a b c d by simp
qed

theorem controls_hidden_after_generation:
  "isVague vagueContext = Some True
   \<and> \<not> isVagueState (Some vagueContext) False [''data:image/png;base64,AAAA'']
   \<and> \<not> showsPoiList (Some \<lparr> lat = ''40.0'', lng = ''-30.0'' \<rparr>) (Some vagueContext) False
         [''data:image/png;base64,AAAA'']
   \<and> \<not> showsGenerationControls (Some \<lparr> lat = ''40.0'', lng = ''-30.0'' \<rparr>) (Some vagueContext)
         False [''data:image/png;base64,AAAA'']"
  by (simp add: isVagueState_def showsPoiList_def showsGenerationControls_def vagueContext_def)


end
